theory Spec2Isabelle
  imports Main "HOL-Library.Word"
begin

unbundle bit_operations_syntax

section \<open>MikeWindows.h: an object adapter over the Win32 window procedure\<close>

text \<open>
  The header wraps a native window in a C++ object. \<open>AppWindow<T>\<close> registers a window
  class, creates the window, binds the handle to the object inside the window procedure
  and routes messages to member functions that the concrete type \<open>T\<close> may redefine.

  Machine types. \<open>UINT\<close>, \<open>DWORD\<close>, \<open>int\<close> and \<open>BOOL\<close> are 32-bit words, \<open>WORD\<close> and
  \<open>short\<close> are 16-bit words. \<open>HWND\<close>, \<open>WPARAM\<close>, \<open>LPARAM\<close>, \<open>LRESULT\<close>, \<open>LONG_PTR\<close> and
  \<open>uintptr_t\<close> have the width of a pointer, which depends on the build target; they are
  \<open>'w word\<close>, and statements that need a particular target say so. The records and
  datatypes below take the type \<open>'p\<close> of pointer-sized values as a parameter; the
  functions use them at \<open>'p = 'w word\<close>.
\<close>

type_synonym UINT = "32 word"
type_synonym DWORD = "32 word"

subsection \<open>Text produced by the C++ library\<close>

text \<open>
  \<open>operator<<\<close> on an unsigned integer and \<open>std::to_wstring\<close> both print the decimal
  digits of the value, most significant first, without sign, padding or grouping (the
  stream is taken to carry the classic locale).
\<close>

definition digit_char :: "nat \<Rightarrow> char" where
  "digit_char d = ''0123456789'' ! d"

function decimal :: "nat \<Rightarrow> string" where
  "decimal n = (if n < 10 then [digit_char n] else decimal (n div 10) @ [digit_char (n mod 10)])"
  by pat_completeness auto
termination
  by (relation "measure id") auto

declare decimal.simps [simp del]

subsection \<open>\<open>win32_error::format\<close>\<close>

text \<open>
  \<open>FormatMessageA\<close> is the platform's table of error descriptions. It is a parameter:
  \<open>None\<close> stands for a return value of zero (no description), \<open>Some d\<close> for a buffer
  holding the text \<open>d\<close>.

  \<open>strip_line_break\<close> is the block
  \<^verbatim>\<open>if (length >= 2 && 0 == strcmp(description + length - 2, "\r\n")) description[length - 2] = '\0';\<close>
\<close>

definition CRLF :: string where
  "CRLF = [CHR 0x0D, CHR 0x0A]"

definition strip_line_break :: "string \<Rightarrow> string" where
  "strip_line_break description =
     (let length = size description in
      if length \<ge> 2 \<and> drop (length - 2) description = CRLF
      then take (length - 2) description
      else description)"

definition format :: "(DWORD \<Rightarrow> string option) \<Rightarrow> string \<Rightarrow> DWORD \<Rightarrow> string" where
  "format FormatMessageA message error_code =
     (let stream = message @ '': error '' @ decimal (unat error_code) in
      case FormatMessageA error_code of
        Some description \<Rightarrow> stream @ '': '' @ strip_line_break description
      | None \<Rightarrow> stream)"

subsection \<open>Platform constants and macros\<close>

text \<open>
  The values and macros below are those of the platform headers \<open>WinUser.h\<close>,
  \<open>WinError.h\<close> and \<open>minwindef.h\<close>, which the header includes through \<open>Windows.h\<close>.
\<close>

definition WM_CREATE :: UINT where "WM_CREATE = 0x0001"
definition WM_DESTROY :: UINT where "WM_DESTROY = 0x0002"
definition WM_PAINT :: UINT where "WM_PAINT = 0x000F"
definition WM_SETCURSOR :: UINT where "WM_SETCURSOR = 0x0020"
definition WM_GETMINMAXINFO :: UINT where "WM_GETMINMAXINFO = 0x0024"
definition WM_NCCREATE :: UINT where "WM_NCCREATE = 0x0081"
definition WM_NCDESTROY :: UINT where "WM_NCDESTROY = 0x0082"
definition WM_NCCALCSIZE :: UINT where "WM_NCCALCSIZE = 0x0083"
definition WM_NCHITTEST :: UINT where "WM_NCHITTEST = 0x0084"
definition WM_MOUSEMOVE :: UINT where "WM_MOUSEMOVE = 0x0200"
definition WM_LBUTTONUP :: UINT where "WM_LBUTTONUP = 0x0202"

definition ERROR_CANNOT_FIND_WND_CLASS :: DWORD where "ERROR_CANNOT_FIND_WND_CLASS = 1407"
definition ERROR_CLASS_ALREADY_EXISTS :: DWORD where "ERROR_CLASS_ALREADY_EXISTS = 1410"

definition CS_DBLCLKS :: UINT where "CS_DBLCLKS = 0x0008"
definition COLOR_WINDOW :: "'w::len word" where "COLOR_WINDOW = 5"

text \<open>
  \<^verbatim>\<open>#define LOWORD(l) ((WORD)(((DWORD_PTR)(l)) & 0xffff))\<close>
  \<^verbatim>\<open>#define HIWORD(l) ((WORD)((((DWORD_PTR)(l)) >> 16) & 0xffff))\<close>
  \<^verbatim>\<open>#define MAKELONG(a, b) ((LONG)(((WORD)(((DWORD_PTR)(a)) & 0xffff)) | ((DWORD)((WORD)(((DWORD_PTR)(b)) & 0xffff))) << 16))\<close>
  \<^verbatim>\<open>#define MAKELPARAM(l, h) ((LPARAM)(DWORD)MAKELONG(l, h))\<close>
\<close>

definition LOWORD :: "'w::len word \<Rightarrow> 16 word" where
  "LOWORD l = ucast (l AND 0xffff)"

definition HIWORD :: "'w::len word \<Rightarrow> 16 word" where
  "HIWORD l = ucast (drop_bit 16 l AND 0xffff)"

definition MAKELONG :: "32 word \<Rightarrow> 32 word \<Rightarrow> 32 word" where
  "MAKELONG a b = ucast (ucast (a AND 0xffff) :: 16 word)
                  OR push_bit 16 (ucast (ucast (b AND 0xffff) :: 16 word))"

definition MAKELPARAM :: "32 word \<Rightarrow> 32 word \<Rightarrow> 'w::len word" where
  "MAKELPARAM l h = ucast (MAKELONG l h)"

subsection \<open>State\<close>

text \<open>
  A failed run ends in an \<open>error\<close>. \<open>win32_error\<close> is the exception class of the header;
  it derives from \<open>std::runtime_error\<close> and keeps nothing but the text that \<open>format\<close>
  built. \<open>null_dereference\<close> is a read or a write of a field through a null pointer, as
  the creation block of the window procedure makes when \<open>lParam\<close> or \<open>lpCreateParams\<close> is
  null.
\<close>

datatype error = win32_error string | null_dereference

text \<open>
  Every call of a handler is recorded in \<open>calls\<close>, with the class whose member was
  selected, the object it ran on and its arguments. The record is an observation only;
  nothing reads it.
\<close>

datatype member_of = AppWindow_member | MainWindow_member | T_member

datatype 'p handler_call =
    on_destroy_call 'p
  | on_left_button_up_call 'p "32 word" "32 word" UINT
  | on_mouse_move_call 'p "32 word" "32 word" UINT
  | on_hittest_call 'p "32 word" "32 word"
  | on_paint_call 'p
  | on_set_cursor_call 'p 'p UINT UINT
  | on_message_call 'p "32 word" 'p 'p

text \<open>
  \<open>app\<close> is the application's own data, on which the members defined by a concrete type
  act. \<open>m_window\<close> is the field \<open>Window::m_window\<close> of the object at an address.
  \<open>user_data\<close> is the \<open>GWLP_USERDATA\<close> slot of a handle, read by \<open>GetWindowLongPtr\<close> and
  written by \<open>SetWindowLongPtr\<close>. \<open>lpCreateParams\<close> is that field of the \<open>CREATESTRUCT\<close>
  at an address. \<open>classes\<close> holds the names of the registered window classes,
  \<open>last_error\<close> is what \<open>GetLastError\<close> returns and \<open>quit_codes\<close> lists the exit codes
  handed to \<open>PostQuitMessage\<close>.
\<close>

record ('u, 'p) world =
  app :: 'u
  m_window :: "'p \<Rightarrow> 'p"
  user_data :: "'p \<Rightarrow> 'p"
  lpCreateParams :: "'p \<Rightarrow> 'p"
  classes :: "string set"
  last_error :: DWORD
  quit_codes :: "32 word list"
  calls :: "(member_of \<times> 'p \<times> 'p handler_call) list"

type_synonym 'w message = "UINT \<times> 'w word \<times> 'w word"

text \<open>
  What the platform does on one call of \<open>CreateWindow\<close>: the handle it allots (null
  when it makes no window, with \<open>failure_code\<close> as last error), where it puts the
  \<open>CREATESTRUCT\<close>, and the messages it sends to the window procedure before and after
  \<open>WM_NCCREATE\<close> until \<open>CreateWindow\<close> returns.
\<close>

record 'p creation =
  new_handle :: 'p
  failure_code :: DWORD
  struct_address :: 'p
  early_messages :: "(UINT \<times> 'p \<times> 'p) list"
  late_messages :: "(UINT \<times> 'p \<times> 'p) list"

text \<open>
  The platform's answers are parameters of the model: the default window procedure, the
  error descriptions, the module of a code address, the stock icon and cursor, a refusal
  of \<open>RegisterClassEx\<close> for a reason other than a name already taken, and the course
  of the next \<open>CreateWindow\<close>. \<open>DefWindowProc\<close> is its answer as a function of the four
  arguments; what it does to the window besides is not part of the model.
\<close>

record 'p platform =
  DefWindowProc :: "'p \<Rightarrow> UINT \<Rightarrow> 'p \<Rightarrow> 'p \<Rightarrow> 'p"
  FormatMessageA :: "DWORD \<Rightarrow> string option"
  GetModuleHandleEx :: "'p \<Rightarrow> 'p"
  LoadIcon :: 'p
  LoadCursor :: 'p
  registration_refused :: "string \<Rightarrow> DWORD option"
  creation :: "'p creation"

text \<open>
  A concrete window type \<open>T\<close>: its name, the address of its instance
  \<open>AppWindow<T>::WndProc\<close> in the built program, whether it derives from \<open>MainWindow<T>\<close> or directly from \<open>AppWindow<T>\<close>, and the
  handlers it defines itself. A member defined by \<open>T\<close> is application code; it receives
  the object and the handler's arguments and acts on the application's data. It is taken
  not to call into the platform, so it leaves handles, user data and window classes alone.
  Members of \<open>T\<close> that would replace \<open>register_class\<close>, \<open>create\<close>, \<open>get_class_name\<close> or
  \<open>get_current_module\<close> are not considered: these are the ones of \<open>AppWindow\<close>.
\<close>

record ('u, 'p) window_type =
  type_name :: string
  WndProc_address :: 'p
  derives_MainWindow :: bool
  T_on_destroy :: "('p \<Rightarrow> 'p \<Rightarrow> 'u \<Rightarrow> 'u) option"
  T_on_left_button_up ::
    "('p \<Rightarrow> 'p \<Rightarrow> 32 word \<Rightarrow> 32 word \<Rightarrow> UINT \<Rightarrow> 'u \<Rightarrow> 'u) option"
  T_on_mouse_move ::
    "('p \<Rightarrow> 'p \<Rightarrow> 32 word \<Rightarrow> 32 word \<Rightarrow> UINT \<Rightarrow> 'u \<Rightarrow> 'u) option"
  T_on_hittest :: "('p \<Rightarrow> 'p \<Rightarrow> 32 word \<Rightarrow> 32 word \<Rightarrow> 'u \<Rightarrow> UINT \<times> 'u) option"
  T_on_paint :: "('p \<Rightarrow> 'p \<Rightarrow> 'u \<Rightarrow> 'u) option"
  T_on_set_cursor ::
    "('p \<Rightarrow> 'p \<Rightarrow> 'p \<Rightarrow> UINT \<Rightarrow> UINT \<Rightarrow> 'u \<Rightarrow> 32 word \<times> 'u) option"
  T_on_message ::
    "('p \<Rightarrow> 'p \<Rightarrow> 32 word \<Rightarrow> 'p \<Rightarrow> 'p \<Rightarrow> 'u \<Rightarrow> 'p \<times> 'u) option"

record WindowCreationParams =
  caption :: string

record 'p WNDCLASSEX =
  style :: UINT
  lpfnWndProc :: 'p
  hInstance :: 'p
  hIcon :: 'p
  hCursor :: 'p
  hbrBackground :: 'p
  lpszClassName :: string

subsection \<open>Platform calls\<close>

definition GetLastError :: "('u, 'w word) world \<Rightarrow> DWORD" where
  "GetLastError w = last_error w"

definition GetWindowLongPtr :: "('u, 'w::len word) world \<Rightarrow> 'w word \<Rightarrow> 'w word" where
  "GetWindowLongPtr w window = user_data w window"

definition SetWindowLongPtr ::
  "'w::len word \<Rightarrow> 'w word \<Rightarrow> ('u, 'w word) world \<Rightarrow> ('u, 'w word) world" where
  "SetWindowLongPtr window value w = w\<lparr>user_data := (user_data w)(window := value)\<rparr>"

definition PostQuitMessage :: "32 word \<Rightarrow> ('u, 'w word) world \<Rightarrow> ('u, 'w word) world" where
  "PostQuitMessage nExitCode w = w\<lparr>quit_codes := quit_codes w @ [nExitCode]\<rparr>"

text \<open>
  \<open>RegisterClassEx\<close> refuses a name that is taken with \<open>ERROR_CLASS_ALREADY_EXISTS\<close>,
  may refuse for a reason of the platform's own, and otherwise records the class. The
  first component of the result says whether the returned atom is nonzero.
\<close>

definition RegisterClassEx ::
  "'w word platform \<Rightarrow> 'w word WNDCLASSEX \<Rightarrow> ('u, 'w word) world \<Rightarrow> bool \<times> ('u, 'w word) world" where
  "RegisterClassEx plat wndclass w =
     (if lpszClassName wndclass \<in> classes w
      then (False, w\<lparr>last_error := ERROR_CLASS_ALREADY_EXISTS\<rparr>)
      else case registration_refused plat (lpszClassName wndclass) of
             Some code \<Rightarrow> (False, w\<lparr>last_error := code\<rparr>)
           | None \<Rightarrow> (True, w\<lparr>classes := insert (lpszClassName wndclass) (classes w)\<rparr>))"

subsection \<open>Message crackers of \<open>WindowsX.h\<close>\<close>

text \<open>
  \<open>WindowsX.h\<close> is a header of the platform SDK. The macros the window procedure uses
  read there:
  \<^verbatim>\<open>#define HANDLE_MSG(hwnd, message, fn) case (message): return HANDLE_##message((hwnd), (wParam), (lParam), (fn))\<close>
  \<^verbatim>\<open>#define HANDLE_WM_DESTROY(hwnd, wParam, lParam, fn) ((fn)(hwnd), 0L)\<close>
  \<^verbatim>\<open>#define HANDLE_WM_LBUTTONUP(hwnd, wParam, lParam, fn) ((fn)((hwnd), (int)(short)LOWORD(lParam), (int)(short)HIWORD(lParam), (UINT)(wParam)), 0L)\<close>
  \<^verbatim>\<open>#define HANDLE_WM_MOUSEMOVE(hwnd, wParam, lParam, fn) ((fn)((hwnd), (int)(short)LOWORD(lParam), (int)(short)HIWORD(lParam), (UINT)(wParam)), 0L)\<close>
  \<^verbatim>\<open>#define HANDLE_WM_NCHITTEST(hwnd, wParam, lParam, fn) (LRESULT)(DWORD)(UINT)(fn)((hwnd), (int)(short)LOWORD(lParam), (int)(short)HIWORD(lParam))\<close>
  \<^verbatim>\<open>#define FORWARD_WM_NCHITTEST(hwnd, x, y, fn) (UINT)(DWORD)(fn)((hwnd), WM_NCHITTEST, 0L, MAKELPARAM((x), (y)))\<close>
  \<^verbatim>\<open>#define HANDLE_WM_PAINT(hwnd, wParam, lParam, fn) ((fn)(hwnd), 0L)\<close>
  \<^verbatim>\<open>#define HANDLE_WM_SETCURSOR(hwnd, wParam, lParam, fn) (LRESULT)(DWORD)(BOOL)(fn)((hwnd), (HWND)(wParam), (UINT)LOWORD(lParam), (UINT)HIWORD(lParam))\<close>
  \<^verbatim>\<open>#define FORWARD_WM_SETCURSOR(hwnd, hwndCursor, codeHitTest, msg, fn) (BOOL)(DWORD)(fn)((hwnd), WM_SETCURSOR, (WPARAM)(HWND)(hwndCursor), MAKELPARAM((codeHitTest), (msg)))\<close>
  So every \<open>HANDLE_MSG\<close> line of the \<open>switch\<close> is a \<open>case\<close> label that returns from the
  window procedure. The handler \<open>fn\<close> takes the state; a handler without a result yields
  the new state, one with a result yields the pair.
\<close>

definition HANDLE_WM_DESTROY ::
  "'w::len word \<Rightarrow> 'w word \<Rightarrow> 'w word \<Rightarrow> ('w word \<Rightarrow> 's \<Rightarrow> error + 's) \<Rightarrow> 's \<Rightarrow> error + 'w word \<times> 's" where
  "HANDLE_WM_DESTROY hwnd wParam lParam fn w =
     (case fn hwnd w of Inl e \<Rightarrow> Inl e | Inr w' \<Rightarrow> Inr (0, w'))"

definition HANDLE_WM_LBUTTONUP ::
  "'w::len word \<Rightarrow> 'w word \<Rightarrow> 'w word \<Rightarrow>
   ('w word \<Rightarrow> 32 word \<Rightarrow> 32 word \<Rightarrow> UINT \<Rightarrow> 's \<Rightarrow> error + 's) \<Rightarrow> 's \<Rightarrow> error + 'w word \<times> 's" where
  "HANDLE_WM_LBUTTONUP hwnd wParam lParam fn w =
     (case fn hwnd (scast (LOWORD lParam)) (scast (HIWORD lParam)) (ucast wParam) w of
        Inl e \<Rightarrow> Inl e
      | Inr w' \<Rightarrow> Inr (0, w'))"

definition HANDLE_WM_MOUSEMOVE ::
  "'w::len word \<Rightarrow> 'w word \<Rightarrow> 'w word \<Rightarrow>
   ('w word \<Rightarrow> 32 word \<Rightarrow> 32 word \<Rightarrow> UINT \<Rightarrow> 's \<Rightarrow> error + 's) \<Rightarrow> 's \<Rightarrow> error + 'w word \<times> 's" where
  "HANDLE_WM_MOUSEMOVE hwnd wParam lParam fn w =
     (case fn hwnd (scast (LOWORD lParam)) (scast (HIWORD lParam)) (ucast wParam) w of
        Inl e \<Rightarrow> Inl e
      | Inr w' \<Rightarrow> Inr (0, w'))"

definition HANDLE_WM_NCHITTEST ::
  "'w::len word \<Rightarrow> 'w word \<Rightarrow> 'w word \<Rightarrow>
   ('w word \<Rightarrow> 32 word \<Rightarrow> 32 word \<Rightarrow> 's \<Rightarrow> error + UINT \<times> 's) \<Rightarrow> 's \<Rightarrow> error + 'w word \<times> 's" where
  "HANDLE_WM_NCHITTEST hwnd wParam lParam fn w =
     (case fn hwnd (scast (LOWORD lParam)) (scast (HIWORD lParam)) w of
        Inl e \<Rightarrow> Inl e
      | Inr (r, w') \<Rightarrow> Inr (ucast r, w'))"

definition FORWARD_WM_NCHITTEST ::
  "'w::len word \<Rightarrow> 32 word \<Rightarrow> 32 word \<Rightarrow> ('w word \<Rightarrow> UINT \<Rightarrow> 'w word \<Rightarrow> 'w word \<Rightarrow> 'w word) \<Rightarrow> UINT" where
  "FORWARD_WM_NCHITTEST hwnd x y fn = ucast (fn hwnd WM_NCHITTEST 0 (MAKELPARAM x y))"

definition HANDLE_WM_PAINT ::
  "'w::len word \<Rightarrow> 'w word \<Rightarrow> 'w word \<Rightarrow> ('w word \<Rightarrow> 's \<Rightarrow> error + 's) \<Rightarrow> 's \<Rightarrow> error + 'w word \<times> 's" where
  "HANDLE_WM_PAINT hwnd wParam lParam fn w =
     (case fn hwnd w of Inl e \<Rightarrow> Inl e | Inr w' \<Rightarrow> Inr (0, w'))"

definition HANDLE_WM_SETCURSOR ::
  "'w::len word \<Rightarrow> 'w word \<Rightarrow> 'w word \<Rightarrow>
   ('w word \<Rightarrow> 'w word \<Rightarrow> UINT \<Rightarrow> UINT \<Rightarrow> 's \<Rightarrow> error + 32 word \<times> 's) \<Rightarrow> 's \<Rightarrow> error + 'w word \<times> 's" where
  "HANDLE_WM_SETCURSOR hwnd wParam lParam fn w =
     (case fn hwnd wParam (ucast (LOWORD lParam)) (ucast (HIWORD lParam)) w of
        Inl e \<Rightarrow> Inl e
      | Inr (r, w') \<Rightarrow> Inr (ucast r, w'))"

definition FORWARD_WM_SETCURSOR ::
  "'w::len word \<Rightarrow> 'w word \<Rightarrow> UINT \<Rightarrow> UINT \<Rightarrow> ('w word \<Rightarrow> UINT \<Rightarrow> 'w word \<Rightarrow> 'w word \<Rightarrow> 'w word) \<Rightarrow> 32 word" where
  "FORWARD_WM_SETCURSOR hwnd hwndCursor codeHitTest msg fn =
     ucast (fn hwnd WM_SETCURSOR hwndCursor (MAKELPARAM codeHitTest msg))"

subsection \<open>Default handlers of \<open>AppWindow\<close> and the handler of \<open>MainWindow\<close>\<close>

definition AppWindow_on_destroy :: "'w word \<Rightarrow> ('u, 'w word) world \<Rightarrow> ('u, 'w word) world" where
  "AppWindow_on_destroy hwnd w = w"

definition AppWindow_on_hittest ::
  "'w::len word platform \<Rightarrow> 'w word \<Rightarrow> 32 word \<Rightarrow> 32 word \<Rightarrow> ('u, 'w word) world \<Rightarrow> UINT \<times> ('u, 'w word) world" where
  "AppWindow_on_hittest plat hwnd x y w = (FORWARD_WM_NCHITTEST hwnd x y (DefWindowProc plat), w)"

definition AppWindow_on_left_button_up ::
  "'w word \<Rightarrow> 32 word \<Rightarrow> 32 word \<Rightarrow> UINT \<Rightarrow> ('u, 'w word) world \<Rightarrow> ('u, 'w word) world" where
  "AppWindow_on_left_button_up hwnd x y flags w = w"

definition AppWindow_on_mouse_move ::
  "'w word \<Rightarrow> 32 word \<Rightarrow> 32 word \<Rightarrow> UINT \<Rightarrow> ('u, 'w word) world \<Rightarrow> ('u, 'w word) world" where
  "AppWindow_on_mouse_move hwnd x y flags w = w"

definition AppWindow_on_paint :: "'w word \<Rightarrow> ('u, 'w word) world \<Rightarrow> ('u, 'w word) world" where
  "AppWindow_on_paint hwnd w = w"

definition AppWindow_on_set_cursor ::
  "'w::len word platform \<Rightarrow> 'w word \<Rightarrow> 'w word \<Rightarrow> UINT \<Rightarrow> UINT \<Rightarrow> ('u, 'w word) world \<Rightarrow>
   32 word \<times> ('u, 'w word) world" where
  "AppWindow_on_set_cursor plat hwnd hwndCursor codeHitTest msg w =
     (FORWARD_WM_SETCURSOR hwnd hwndCursor codeHitTest msg (DefWindowProc plat), w)"

definition AppWindow_on_message ::
  "'w::len word platform \<Rightarrow> 'w word \<Rightarrow> 32 word \<Rightarrow> 'w word \<Rightarrow> 'w word \<Rightarrow> ('u, 'w word) world \<Rightarrow>
   'w word \<times> ('u, 'w word) world" where
  "AppWindow_on_message plat window message wParam lParam w =
     (DefWindowProc plat window message wParam lParam, w)"

definition MainWindow_on_destroy :: "'w word \<Rightarrow> ('u, 'w word) world \<Rightarrow> ('u, 'w word) world" where
  "MainWindow_on_destroy hwnd w = PostQuitMessage 1 w"

subsection \<open>Member calls through a pointer to \<open>T\<close>\<close>

text \<open>
  \<open>this_->on_destroy(hwnd)\<close> with \<open>this_\<close> of type \<open>T *\<close> is bound at compile time: the
  member of \<open>T\<close> where \<open>T\<close> defines one, else the member of \<open>MainWindow<T>\<close> where \<open>T\<close>
  derives from it and it defines one (only \<open>on_destroy\<close>), else the member of
  \<open>AppWindow<T>\<close>. None of these members is virtual and none of \<open>AppWindow\<close> or
  \<open>MainWindow\<close> reads a field of the object, so the call hands the pointer over as \<open>this\<close>
  and runs the member also when the pointer is null. The calls return in every case; their
  result type is that of the window procedure, so that they fit the message crackers. The
  local \<open>this_\<close> of the window procedure is written \<open>this'\<close>.
\<close>

definition record_call ::
  "member_of \<Rightarrow> 'w word \<Rightarrow> 'w word handler_call \<Rightarrow> ('u, 'w word) world \<Rightarrow> ('u, 'w word) world" where
  "record_call c this' h w = w\<lparr>calls := calls w @ [(c, this', h)]\<rparr>"

definition call_on_destroy ::
  "('u, 'w::len word) window_type \<Rightarrow> 'w word \<Rightarrow> 'w word \<Rightarrow> ('u, 'w word) world \<Rightarrow>
   error + ('u, 'w word) world" where
  "call_on_destroy T this' hwnd w =
     (case T_on_destroy T of
        Some f \<Rightarrow>
          Inr ((record_call T_member this' (on_destroy_call hwnd) w)\<lparr>app := f this' hwnd (app w)\<rparr>)
      | None \<Rightarrow>
          if derives_MainWindow T
          then Inr (MainWindow_on_destroy hwnd (record_call MainWindow_member this' (on_destroy_call hwnd) w))
          else Inr (AppWindow_on_destroy hwnd (record_call AppWindow_member this' (on_destroy_call hwnd) w)))"

definition call_on_left_button_up ::
  "('u, 'w::len word) window_type \<Rightarrow> 'w word \<Rightarrow> 'w word \<Rightarrow> 32 word \<Rightarrow> 32 word \<Rightarrow> UINT \<Rightarrow>
   ('u, 'w word) world \<Rightarrow> error + ('u, 'w word) world" where
  "call_on_left_button_up T this' hwnd x y flags w =
     (case T_on_left_button_up T of
        Some f \<Rightarrow>
          Inr ((record_call T_member this' (on_left_button_up_call hwnd x y flags) w)
                 \<lparr>app := f this' hwnd x y flags (app w)\<rparr>)
      | None \<Rightarrow>
          Inr (AppWindow_on_left_button_up hwnd x y flags
                 (record_call AppWindow_member this' (on_left_button_up_call hwnd x y flags) w)))"

definition call_on_mouse_move ::
  "('u, 'w::len word) window_type \<Rightarrow> 'w word \<Rightarrow> 'w word \<Rightarrow> 32 word \<Rightarrow> 32 word \<Rightarrow> UINT \<Rightarrow>
   ('u, 'w word) world \<Rightarrow> error + ('u, 'w word) world" where
  "call_on_mouse_move T this' hwnd x y flags w =
     (case T_on_mouse_move T of
        Some f \<Rightarrow>
          Inr ((record_call T_member this' (on_mouse_move_call hwnd x y flags) w)
                 \<lparr>app := f this' hwnd x y flags (app w)\<rparr>)
      | None \<Rightarrow>
          Inr (AppWindow_on_mouse_move hwnd x y flags
                 (record_call AppWindow_member this' (on_mouse_move_call hwnd x y flags) w)))"

definition call_on_hittest ::
  "'w word platform \<Rightarrow> ('u, 'w::len word) window_type \<Rightarrow> 'w word \<Rightarrow> 'w word \<Rightarrow> 32 word \<Rightarrow> 32 word \<Rightarrow>
   ('u, 'w word) world \<Rightarrow> error + UINT \<times> ('u, 'w word) world" where
  "call_on_hittest plat T this' hwnd x y w =
     (case T_on_hittest T of
        Some f \<Rightarrow>
          (case f this' hwnd x y (app w) of
             (r, a) \<Rightarrow> Inr (r, (record_call T_member this' (on_hittest_call hwnd x y) w)\<lparr>app := a\<rparr>))
      | None \<Rightarrow>
          Inr (AppWindow_on_hittest plat hwnd x y
                 (record_call AppWindow_member this' (on_hittest_call hwnd x y) w)))"

definition call_on_paint ::
  "('u, 'w::len word) window_type \<Rightarrow> 'w word \<Rightarrow> 'w word \<Rightarrow> ('u, 'w word) world \<Rightarrow>
   error + ('u, 'w word) world" where
  "call_on_paint T this' hwnd w =
     (case T_on_paint T of
        Some f \<Rightarrow>
          Inr ((record_call T_member this' (on_paint_call hwnd) w)\<lparr>app := f this' hwnd (app w)\<rparr>)
      | None \<Rightarrow>
          Inr (AppWindow_on_paint hwnd (record_call AppWindow_member this' (on_paint_call hwnd) w)))"

definition call_on_set_cursor ::
  "'w word platform \<Rightarrow> ('u, 'w::len word) window_type \<Rightarrow> 'w word \<Rightarrow> 'w word \<Rightarrow> 'w word \<Rightarrow> UINT \<Rightarrow> UINT \<Rightarrow>
   ('u, 'w word) world \<Rightarrow> error + 32 word \<times> ('u, 'w word) world" where
  "call_on_set_cursor plat T this' hwnd hwndCursor codeHitTest msg w =
     (case T_on_set_cursor T of
        Some f \<Rightarrow>
          (case f this' hwnd hwndCursor codeHitTest msg (app w) of
             (r, a) \<Rightarrow>
               Inr (r, (record_call T_member this' (on_set_cursor_call hwnd hwndCursor codeHitTest msg) w)
                         \<lparr>app := a\<rparr>))
      | None \<Rightarrow>
          Inr (AppWindow_on_set_cursor plat hwnd hwndCursor codeHitTest msg
                 (record_call AppWindow_member this'
                    (on_set_cursor_call hwnd hwndCursor codeHitTest msg) w)))"

text \<open>
  \<open>on_message\<close> takes the message code as an \<open>int\<close>; the conversion from \<open>UINT\<close> and back
  (in the call of \<open>DefWindowProc\<close>) keeps the 32 bits.
\<close>

definition call_on_message ::
  "'w word platform \<Rightarrow> ('u, 'w::len word) window_type \<Rightarrow> 'w word \<Rightarrow> 'w word \<Rightarrow> UINT \<Rightarrow> 'w word \<Rightarrow> 'w word \<Rightarrow>
   ('u, 'w word) world \<Rightarrow> error + 'w word \<times> ('u, 'w word) world" where
  "call_on_message plat T this' window message wParam lParam w =
     (case T_on_message T of
        Some f \<Rightarrow>
          (case f this' window message wParam lParam (app w) of
             (r, a) \<Rightarrow>
               Inr (r, (record_call T_member this' (on_message_call window message wParam lParam) w)
                         \<lparr>app := a\<rparr>))
      | None \<Rightarrow>
          Inr (AppWindow_on_message plat window message wParam lParam
                 (record_call AppWindow_member this'
                    (on_message_call window message wParam lParam) w)))"

subsection \<open>\<open>AppWindow<T>::WndProc\<close>\<close>

text \<open>
  The block under \<open>if (message == WM_NCCREATE)\<close>: read \<open>lpCreateParams\<close> through
  \<open>lParam\<close>, store the handle in the object it points to, store the pointer in the
  handle's user data. Reading through a null \<open>lParam\<close> and writing \<open>m_window\<close> through a
  null \<open>param\<close> are errors. The object of type \<open>T\<close> and its base \<open>AppWindow<T>\<close> are taken
  to have the same address, so that the casts between the two pointer types keep the
  value.
\<close>

definition bind_on_create ::
  "'w::len word \<Rightarrow> UINT \<Rightarrow> 'w word \<Rightarrow> ('u, 'w word) world \<Rightarrow> error + ('u, 'w word) world" where
  "bind_on_create window message lParam w =
     (if message = WM_NCCREATE
      then (if lParam = 0 then Inl null_dereference
            else let param = lpCreateParams w lParam in
              if param = 0 then Inl null_dereference
              else Inr (SetWindowLongPtr window param
                          (w\<lparr>m_window := (m_window w)(param := window)\<rparr>)))
      else Inr w)"

text \<open>
  The \<open>switch\<close>: \<open>Some\<close> is the \<open>return\<close> of the \<open>HANDLE_MSG\<close> line whose label matches,
  \<open>None\<close> means that no label matches and control leaves the \<open>switch\<close>.
\<close>

definition message_switch ::
  "'w word platform \<Rightarrow> ('u, 'w::len word) window_type \<Rightarrow> 'w word \<Rightarrow> 'w word \<Rightarrow> UINT \<Rightarrow> 'w word \<Rightarrow> 'w word \<Rightarrow>
   ('u, 'w word) world \<Rightarrow> (error + 'w word \<times> ('u, 'w word) world) option" where
  "message_switch plat T this' window message wParam lParam w =
     (if message = WM_DESTROY
        then Some (HANDLE_WM_DESTROY window wParam lParam (call_on_destroy T this') w)
      else if message = WM_LBUTTONUP
        then Some (HANDLE_WM_LBUTTONUP window wParam lParam (call_on_left_button_up T this') w)
      else if message = WM_MOUSEMOVE
        then Some (HANDLE_WM_MOUSEMOVE window wParam lParam (call_on_mouse_move T this') w)
      else if message = WM_NCHITTEST
        then Some (HANDLE_WM_NCHITTEST window wParam lParam (call_on_hittest plat T this') w)
      else if message = WM_PAINT
        then Some (HANDLE_WM_PAINT window wParam lParam (call_on_paint T this') w)
      else if message = WM_SETCURSOR
        then Some (HANDLE_WM_SETCURSOR window wParam lParam (call_on_set_cursor plat T this') w)
      else None)"

definition WndProc ::
  "'w word platform \<Rightarrow> ('u, 'w::len word) window_type \<Rightarrow> 'w word \<Rightarrow> UINT \<Rightarrow> 'w word \<Rightarrow> 'w word \<Rightarrow>
   ('u, 'w word) world \<Rightarrow> error + 'w word \<times> ('u, 'w word) world" where
  "WndProc plat T window message wParam lParam w =
     (case bind_on_create window message lParam w of
        Inl e \<Rightarrow> Inl e
      | Inr w1 \<Rightarrow>
          let this' = GetWindowLongPtr w1 window in
          case (if this' \<noteq> 0
                then message_switch plat T this' window message wParam lParam w1
                else None) of
            Some r \<Rightarrow> r
          | None \<Rightarrow> call_on_message plat T this' window message wParam lParam w1)"

text \<open>The platform handing a sequence of messages for one handle to the window procedure.\<close>

fun deliver ::
  "'w word platform \<Rightarrow> ('u, 'w::len word) window_type \<Rightarrow> 'w word \<Rightarrow> 'w message list \<Rightarrow>
   ('u, 'w word) world \<Rightarrow> error + ('u, 'w word) world" where
  "deliver plat T window [] w = Inr w"
| "deliver plat T window ((message, wParam, lParam) # ms) w =
     (case WndProc plat T window message wParam lParam w of
        Inl e \<Rightarrow> Inl e
      | Inr (r, w') \<Rightarrow> deliver plat T window ms w')"

text \<open>The value a run of the window procedure hands back to the platform.\<close>

definition returned :: "error + 'r \<times> 's \<Rightarrow> 'r option" where
  "returned outcome = (case outcome of Inl e \<Rightarrow> None | Inr (r, s) \<Rightarrow> Some r)"

subsection \<open>Class registration and window creation\<close>

definition get_class_name :: "('u, 'w::len word) window_type \<Rightarrow> string" where
  "get_class_name T = decimal (unat (WndProc_address T))"

definition get_current_module :: "'w word platform \<Rightarrow> ('u, 'w::len word) window_type \<Rightarrow> 'w word" where
  "get_current_module plat T = GetModuleHandleEx plat (WndProc_address T)"

definition register_class ::
  "'w word platform \<Rightarrow> ('u, 'w::len word) window_type \<Rightarrow> 'w word \<Rightarrow> WindowCreationParams \<Rightarrow>
   ('u, 'w word) world \<Rightarrow> error + ('u, 'w word) world" where
  "register_class plat T this creation_params w =
     (let class_name = get_class_name T;
          wndclass = \<lparr>style = CS_DBLCLKS,
                      lpfnWndProc = WndProc_address T,
                      hInstance = get_current_module plat T,
                      hIcon = LoadIcon plat,
                      hCursor = LoadCursor plat,
                      hbrBackground = COLOR_WINDOW + 1,
                      lpszClassName = class_name\<rparr>
      in case RegisterClassEx plat wndclass w of
           (registered, w1) \<Rightarrow>
             if \<not> registered \<and> GetLastError w1 \<noteq> ERROR_CLASS_ALREADY_EXISTS
             then Inl (win32_error (format (FormatMessageA plat) ''RegisterClassEx'' (GetLastError w1)))
             else Inr w1)"

text \<open>
  \<open>CreateWindow\<close> as the platform documents it, for a window of the class that
  \<open>register_class\<close> registered, whose window procedure is \<open>AppWindow<T>::WndProc\<close>.
  It fails when the class name is not registered or the platform allots no handle.
  Otherwise it sends the early messages, then \<open>WM_NCCREATE\<close> with \<open>lParam\<close> pointing to a
  \<open>CREATESTRUCT\<close> whose \<open>lpCreateParams\<close> is the \<open>lpParam\<close> argument; an answer of zero to
  \<open>WM_NCCREATE\<close> makes it fail; then it sends the late messages and returns the handle.
  The second component of a result is the returned handle, null on failure.
\<close>

definition CreateWindow ::
  "'w word platform \<Rightarrow> ('u, 'w::len word) window_type \<Rightarrow> string \<Rightarrow> string \<Rightarrow> 'w word \<Rightarrow> 'w word \<Rightarrow>
   ('u, 'w word) world \<Rightarrow> error + 'w word \<times> ('u, 'w word) world" where
  "CreateWindow plat T lpClassName lpWindowName hInst lpParam w =
     (let c = creation plat in
      if lpClassName \<notin> classes w
        then Inr (0, w\<lparr>last_error := ERROR_CANNOT_FIND_WND_CLASS\<rparr>)
      else if new_handle c = 0
        then Inr (0, w\<lparr>last_error := failure_code c\<rparr>)
      else
        case deliver plat T (new_handle c) (early_messages c) w of
          Inl e \<Rightarrow> Inl e
        | Inr w1 \<Rightarrow>
            case WndProc plat T (new_handle c) WM_NCCREATE 0 (struct_address c)
                   (w1\<lparr>lpCreateParams := (lpCreateParams w1)(struct_address c := lpParam)\<rparr>) of
              Inl e \<Rightarrow> Inl e
            | Inr (r, w2) \<Rightarrow>
                if r = 0 then Inr (0, w2\<lparr>last_error := failure_code c\<rparr>)
                else
                  case deliver plat T (new_handle c) (late_messages c) w2 of
                    Inl e \<Rightarrow> Inl e
                  | Inr w3 \<Rightarrow> Inr (new_handle c, w3))"

definition create ::
  "'w word platform \<Rightarrow> ('u, 'w::len word) window_type \<Rightarrow> 'w word \<Rightarrow> WindowCreationParams \<Rightarrow>
   ('u, 'w word) world \<Rightarrow> error + ('u, 'w word) world" where
  "create plat T this creation_params w =
     (let class_name = get_class_name T in
      case CreateWindow plat T class_name (caption creation_params)
             (get_current_module plat T) this w of
        Inl e \<Rightarrow> Inl e
      | Inr (handle, w1) \<Rightarrow>
          let w2 = w1\<lparr>m_window := (m_window w1)(this := handle)\<rparr> in
          if m_window w2 this = 0
          then Inl (win32_error (format (FormatMessageA plat) ''CreateWindow'' (GetLastError w2)))
          else Inr w2)"

text \<open>
  The constructor \<open>AppWindow(WindowCreationParams)\<close> of the object at address \<open>this\<close>,
  after the constructor of the base \<open>Window\<close>, which sets \<open>m_window\<close> to null.
\<close>

definition Window :: "'w::len word \<Rightarrow> ('u, 'w word) world \<Rightarrow> ('u, 'w word) world" where
  "Window this w = w\<lparr>m_window := (m_window w)(this := 0)\<rparr>"

definition AppWindow ::
  "'w word platform \<Rightarrow> ('u, 'w::len word) window_type \<Rightarrow> 'w word \<Rightarrow> WindowCreationParams \<Rightarrow>
   ('u, 'w word) world \<Rightarrow> error + ('u, 'w word) world" where
  "AppWindow plat T this creation_params w =
     (case register_class plat T this creation_params (Window this w) of
        Inl e \<Rightarrow> Inl e
      | Inr w1 \<Rightarrow> create plat T this creation_params w1)"

section \<open>The routing the specification describes\<close>

text \<open>
  These definitions follow the words of the specification, not the code; the code is
  compared with them below. A message carries a code and two payload words. The
  coordinates of a mouse message are the low-order and the high-order 16-bit word of
  \<open>lParam\<close>, each read as a signed number; its key flags are \<open>wParam\<close>. A cursor query
  carries the handle of the window under the cursor in \<open>wParam\<close>, the hit-test code in the
  low-order word of \<open>lParam\<close> and the triggering message in its high-order word.
  \<open>routed_call\<close> is the handler call that belongs to a message, \<open>most_derived\<close> is the
  class whose member such a call selects: the concrete type where it defines the handler,
  else \<open>MainWindow\<close> for \<open>on_destroy\<close> where the type derives from it, else \<open>AppWindow\<close>.
  \<open>handled_once w w' entry\<close> says that between \<open>w\<close> and \<open>w'\<close> exactly the call \<open>entry\<close> was
  made and nothing of the platform's state but the posted quit codes has changed.
\<close>

definition x_coordinate :: "'w::len word \<Rightarrow> 32 word" where
  "x_coordinate lParam = word_of_int (signed_take_bit 15 (uint lParam))"

definition y_coordinate :: "'w::len word \<Rightarrow> 32 word" where
  "y_coordinate lParam = word_of_int (signed_take_bit 15 (uint lParam div 2 ^ 16))"

definition key_flags :: "'w::len word \<Rightarrow> UINT" where
  "key_flags wParam = word_of_int (uint wParam)"

definition low_order_word :: "'w::len word \<Rightarrow> UINT" where
  "low_order_word lParam = word_of_int (uint lParam mod 2 ^ 16)"

definition high_order_word :: "'w::len word \<Rightarrow> UINT" where
  "high_order_word lParam = word_of_int (uint lParam div 2 ^ 16 mod 2 ^ 16)"

definition routed_call :: "'w::len word \<Rightarrow> UINT \<Rightarrow> 'w word \<Rightarrow> 'w word \<Rightarrow> 'w word handler_call" where
  "routed_call window message wParam lParam =
     (if message = WM_DESTROY then on_destroy_call window
      else if message = WM_LBUTTONUP
        then on_left_button_up_call window (x_coordinate lParam) (y_coordinate lParam) (key_flags wParam)
      else if message = WM_MOUSEMOVE
        then on_mouse_move_call window (x_coordinate lParam) (y_coordinate lParam) (key_flags wParam)
      else if message = WM_NCHITTEST
        then on_hittest_call window (x_coordinate lParam) (y_coordinate lParam)
      else if message = WM_PAINT then on_paint_call window
      else if message = WM_SETCURSOR
        then on_set_cursor_call window wParam (low_order_word lParam) (high_order_word lParam)
      else on_message_call window message wParam lParam)"

fun most_derived :: "('u, 'p) window_type \<Rightarrow> 'p handler_call \<Rightarrow> member_of" where
  "most_derived T (on_destroy_call _) =
     (if T_on_destroy T \<noteq> None then T_member
      else if derives_MainWindow T then MainWindow_member else AppWindow_member)"
| "most_derived T (on_left_button_up_call _ _ _ _) =
     (if T_on_left_button_up T \<noteq> None then T_member else AppWindow_member)"
| "most_derived T (on_mouse_move_call _ _ _ _) =
     (if T_on_mouse_move T \<noteq> None then T_member else AppWindow_member)"
| "most_derived T (on_hittest_call _ _ _) =
     (if T_on_hittest T \<noteq> None then T_member else AppWindow_member)"
| "most_derived T (on_paint_call _) =
     (if T_on_paint T \<noteq> None then T_member else AppWindow_member)"
| "most_derived T (on_set_cursor_call _ _ _ _) =
     (if T_on_set_cursor T \<noteq> None then T_member else AppWindow_member)"
| "most_derived T (on_message_call _ _ _ _) =
     (if T_on_message T \<noteq> None then T_member else AppWindow_member)"

definition handled_once ::
  "('u, 'p) world \<Rightarrow> ('u, 'p) world \<Rightarrow> member_of \<times> 'p \<times> 'p handler_call \<Rightarrow> bool" where
  "handled_once w w' entry \<longleftrightarrow>
     calls w' = calls w @ [entry] \<and> user_data w' = user_data w \<and> m_window w' = m_window w
     \<and> lpCreateParams w' = lpCreateParams w \<and> classes w' = classes w
     \<and> last_error w' = last_error w"

section \<open>Example instances\<close>

text \<open>Concrete platforms, window types and states on which the properties are run.\<close>

definition error_table :: "DWORD \<Rightarrow> string option" where
  "error_table code =
     (if code = 5 then Some (''Access is denied.'' @ CRLF)
      else if code = 8 then Some (''Not enough memory.'' @ CRLF)
      else if code = 14 then Some ''Out of storage''
      else if code = 87 then Some (''The parameter is incorrect.'' @ CRLF @ CRLF)
      else None)"

definition default_answers :: "64 word \<Rightarrow> UINT \<Rightarrow> 64 word \<Rightarrow> 64 word \<Rightarrow> 64 word" where
  "default_answers hwnd message wParam lParam =
     (if message = WM_NCCREATE then 1
      else if message = WM_NCHITTEST then (if lParam = 0 then - 1 else 1)
      else 0)"

definition image_base :: "64 word \<Rightarrow> 64 word" where
  "image_base address = 0x7FF6A1B20000"

definition never_refused :: "string \<Rightarrow> DWORD option" where
  "never_refused name = None"

definition desktop :: "64 word platform" where
  "desktop =
     \<lparr>DefWindowProc = default_answers,
      FormatMessageA = error_table,
      GetModuleHandleEx = image_base,
      LoadIcon = 0x10027,
      LoadCursor = 0x10003,
      registration_refused = never_refused,
      creation = \<lparr>new_handle = 0x50A2C, failure_code = 8, struct_address = 0x14F9D0,
                   early_messages = [],
                   late_messages = [(WM_NCCALCSIZE, 0, 0x14F8A0), (WM_CREATE, 0, 0x14F9D0)]\<rparr>\<rparr>"

definition Plain :: "(nat, 64 word) window_type" where
  "Plain =
     \<lparr>type_name = ''Plain'', WndProc_address = 0x7FF6A1B21000, derives_MainWindow = False,
      T_on_destroy = None, T_on_left_button_up = None, T_on_mouse_move = None,
      T_on_hittest = None, T_on_paint = None, T_on_set_cursor = None, T_on_message = None\<rparr>"

definition Main :: "(nat, 64 word) window_type" where
  "Main =
     \<lparr>type_name = ''Main'', WndProc_address = 0x7FF6A1B22000, derives_MainWindow = True,
      T_on_destroy = None, T_on_left_button_up = None, T_on_mouse_move = None,
      T_on_hittest = None, T_on_paint = None, T_on_set_cursor = None, T_on_message = None\<rparr>"

text \<open>
  A second type without handlers of its own. Its instance of the window procedure has the
  same machine code as that of \<open>Plain\<close>, and in a build whose linker folds identical
  functions the two instances are one function at one address.
\<close>

definition Twin :: "(nat, 64 word) window_type" where
  "Twin = Plain\<lparr>type_name := ''Twin''\<rparr>"

definition zero_cell :: "64 word \<Rightarrow> 64 word" where
  "zero_cell address = 0"

definition blank :: "(nat, 64 word) world" where
  "blank =
     \<lparr>app = 0, m_window = zero_cell, user_data = zero_cell, lpCreateParams = zero_cell,
      classes = {}, last_error = 0, quit_codes = [], calls = []\<rparr>"

definition obj :: "64 word" where "obj = 0x2E4F10"
definition hwnd1 :: "64 word" where "hwnd1 = 0x50A2C"

definition bound :: "(nat, 64 word) world" where
  "bound = blank\<lparr>m_window := zero_cell(obj := hwnd1), user_data := zero_cell(hwnd1 := obj)\<rparr>"

definition count_destroy :: "64 word \<Rightarrow> 64 word \<Rightarrow> nat \<Rightarrow> nat" where
  "count_destroy this hwnd n = n + 100"

definition track_mouse :: "64 word \<Rightarrow> 64 word \<Rightarrow> 32 word \<Rightarrow> 32 word \<Rightarrow> UINT \<Rightarrow> nat \<Rightarrow> nat" where
  "track_mouse this hwnd x y flags n = Suc n"

definition answer_seven ::
  "64 word \<Rightarrow> 64 word \<Rightarrow> 32 word \<Rightarrow> 64 word \<Rightarrow> 64 word \<Rightarrow> nat \<Rightarrow> 64 word \<times> nat" where
  "answer_seven this window message wParam lParam n = (7, n)"

definition Custom :: "(nat, 64 word) window_type" where
  "Custom =
     \<lparr>type_name = ''Custom'', WndProc_address = 0x7FF6A1B23000, derives_MainWindow = True,
      T_on_destroy = Some count_destroy, T_on_left_button_up = None,
      T_on_mouse_move = Some track_mouse, T_on_hittest = None, T_on_paint = None,
      T_on_set_cursor = None, T_on_message = Some answer_seven\<rparr>"

definition always_caption :: "64 word \<Rightarrow> 64 word \<Rightarrow> 32 word \<Rightarrow> 32 word \<Rightarrow> nat \<Rightarrow> UINT \<times> nat" where
  "always_caption this hwnd x y n = (2, Suc n)"

definition Dragged :: "(nat, 64 word) window_type" where
  "Dragged = Plain\<lparr>type_name := ''Dragged'', WndProc_address := 0x7FF6A1B24000,
                   T_on_hittest := Some always_caption\<rparr>"

definition refuse_access :: "string \<Rightarrow> DWORD option" where
  "refuse_access name = Some 5"

definition refusing :: "64 word platform" where
  "refusing = desktop\<lparr>registration_refused := refuse_access\<rparr>"

definition exhausted :: "64 word platform" where
  "exhausted = desktop\<lparr>creation := (creation desktop)\<lparr>new_handle := 0\<rparr>\<rparr>"


section \<open>Properties\<close>

subsection \<open>Decimal text\<close>

lemma digit_char_inj:
  assumes "a < 10" "b < 10" "digit_char a = digit_char b"
  shows "a = b"
proof -
  have d: "distinct ''0123456789''" by simp
  have "a < size ''0123456789''" "b < size ''0123456789''"
    using assms by simp_all
  with d assms(3) show ?thesis
    unfolding digit_char_def by (simp only: nth_eq_iff_index_eq)
qed

lemma decimal_not_empty: "decimal n \<noteq> []"
  by (subst decimal.simps) simp

lemma decimal_inj: "decimal a = decimal b \<Longrightarrow> a = b"
proof (induction a arbitrary: b rule: decimal.induct)
  case (1 a)
  show ?case
  proof (cases "a < 10")
    case small_a: True
    show ?thesis
    proof (cases "b < 10")
      case True
      with small_a "1.prems" show ?thesis
        by (simp add: decimal.simps [of a] decimal.simps [of b] digit_char_inj)
    next
      case False
      with small_a "1.prems" have "[digit_char a] = decimal (b div 10) @ [digit_char (b mod 10)]"
        by (simp add: decimal.simps [of a] decimal.simps [of b])
      then have "decimal (b div 10) = []" by simp
      then show ?thesis by (simp add: decimal_not_empty)
    qed
  next
    case big_a: False
    show ?thesis
    proof (cases "b < 10")
      case True
      with big_a "1.prems" have "decimal (a div 10) @ [digit_char (a mod 10)] = [digit_char b]"
        by (simp add: decimal.simps [of a] decimal.simps [of b])
      then have "decimal (a div 10) = []" by simp
      then show ?thesis by (simp add: decimal_not_empty)
    next
      case False
      with big_a "1.prems"
      have eq: "decimal (a div 10) @ [digit_char (a mod 10)]
              = decimal (b div 10) @ [digit_char (b mod 10)]"
        by (simp add: decimal.simps [of a] decimal.simps [of b])
      then have "decimal (a div 10) = decimal (b div 10)" by simp
      with big_a "1.IH" have q: "a div 10 = b div 10" by simp
      from eq have "digit_char (a mod 10) = digit_char (b mod 10)" by simp
      then have r: "a mod 10 = b mod 10" by (intro digit_char_inj) simp_all
      from q r show ?thesis by (metis div_mult_mod_eq)
    qed
  qed
qed

subsection \<open>Payload words\<close>

lemma mask16: "(0xffff :: 'a::len word) = mask 16"
  by (simp add: mask_eq_exp_minus_1)

lemma mask32: "(0xFFFFFFFF :: 'a::len word) = mask 32"
  by (simp add: mask_eq_exp_minus_1)

lemma LOWORD_eq: "LOWORD l = ucast l"
  unfolding LOWORD_def mask16
  by (rule bit_word_eqI) (auto simp: bit_simps dest: bit_imp_le_length)

lemma HIWORD_eq: "HIWORD l = ucast (drop_bit 16 l)"
  unfolding HIWORD_def mask16
  by (rule bit_word_eqI) (auto simp: bit_simps dest: bit_imp_le_length)

lemma uint_div_65536: "uint (l :: 'w::len word) div 2 ^ 16 = uint (drop_bit 16 l)"
proof -
  have "uint (drop_bit 16 l) = drop_bit 16 (uint l)"
    by (rule bit_eqI) (auto simp add: bit_simps dest: bit_imp_le_length)
  then show ?thesis by (simp only: drop_bit_eq_div)
qed

lemma scast_LOWORD: "scast (LOWORD l) = x_coordinate l"
  by (simp add: x_coordinate_def LOWORD_eq scast_eq sint_uint unsigned_ucast_eq
      signed_take_bit_take_bit)

lemma scast_HIWORD: "scast (HIWORD l) = y_coordinate l"
  unfolding y_coordinate_def uint_div_65536
  by (simp add: HIWORD_eq scast_eq sint_uint unsigned_ucast_eq signed_take_bit_take_bit)

lemma ucast_LOWORD: "ucast (LOWORD l) = low_order_word l"
  unfolding low_order_word_def LOWORD_eq take_bit_eq_mod [symmetric]
  by (rule bit_word_eqI) (auto simp: bit_simps)

lemma ucast_HIWORD: "ucast (HIWORD l) = high_order_word l"
  unfolding high_order_word_def HIWORD_eq uint_div_65536 take_bit_eq_mod [symmetric]
  by (rule bit_word_eqI) (auto simp: bit_simps)

lemma ucast_key_flags: "ucast wParam = key_flags wParam"
  unfolding key_flags_def
  by (rule bit_word_eqI) (auto simp: bit_simps)

subsection \<open>Payload words put together again\<close>

lemma low_word_scast: "(ucast ((scast (x :: 16 word) :: 32 word) AND 0xffff) :: 16 word) = x"
  unfolding mask16
  by (rule bit_word_eqI) (auto simp: bit_simps min_absorb2)

lemma low_word_ucast: "(ucast ((ucast (x :: 16 word) :: 32 word) AND 0xffff) :: 16 word) = x"
  unfolding mask16
  by (rule bit_word_eqI) (auto simp: bit_simps)

lemma join_words:
  "(ucast (ucast (ucast (l :: 'w::len word) :: 16 word)
           OR push_bit 16 (ucast (ucast (drop_bit 16 l) :: 16 word)) :: 32 word) :: 'w word)
     = l AND 0xFFFFFFFF"
  unfolding mask32
  by (rule bit_word_eqI) (auto simp: bit_simps)

lemma MAKELPARAM_coordinates:
  "(MAKELPARAM (x_coordinate (l :: 'w::len word)) (y_coordinate l) :: 'w word) = l AND 0xFFFFFFFF"
  unfolding scast_LOWORD [symmetric] scast_HIWORD [symmetric]
  unfolding MAKELPARAM_def MAKELONG_def low_word_scast LOWORD_eq HIWORD_eq
  by (rule join_words)

lemma MAKELPARAM_words:
  "(MAKELPARAM (low_order_word (l :: 'w::len word)) (high_order_word l) :: 'w word) = l AND 0xFFFFFFFF"
  unfolding ucast_LOWORD [symmetric] ucast_HIWORD [symmetric]
  unfolding MAKELPARAM_def MAKELONG_def low_word_ucast LOWORD_eq HIWORD_eq
  by (rule join_words)

lemma fits_32: "unat (r :: 'w::len word) < 2 ^ 32 \<Longrightarrow> ucast (ucast r :: 32 word) = r"
proof -
  assume "unat r < 2 ^ 32"
  then have "unat (take_bit 32 r) = unat r"
    by (simp add: unsigned_take_bit_eq take_bit_nat_eq_self)
  then have "take_bit 32 r = r"
    by (simp add: word_unat_eq_iff)
  moreover have "ucast (ucast r :: 32 word) = take_bit 32 r"
    by (rule bit_word_eqI) (auto simp: bit_simps)
  ultimately show ?thesis by simp
qed


subsection \<open>Coordinates as the platform packs them\<close>

text \<open>
  The platform packs a position into \<open>lParam\<close> as \<open>MAKELPARAM(x, y)\<close> with 16-bit signed
  coordinates. On a target with pointers of at least 32 bits the coordinates read from
  such an \<open>lParam\<close> are the ones that were packed.
\<close>

lemma coordinates_round_trip:
  fixes x y :: "16 word"
  assumes "32 \<le> LENGTH('w::len)"
  shows "x_coordinate (MAKELPARAM (scast x) (scast y) :: 'w word) = scast x"
    and "y_coordinate (MAKELPARAM (scast x) (scast y) :: 'w word) = scast y"
proof -
  let ?l = "MAKELPARAM (scast x) (scast y) :: 'w word"
  from assms have lo: "LOWORD ?l = x"
    unfolding LOWORD_eq MAKELPARAM_def MAKELONG_def low_word_scast
    by - (rule bit_word_eqI, auto simp: bit_simps dest: bit_imp_le_length)
  show "x_coordinate ?l = scast x"
    unfolding scast_LOWORD [symmetric] lo ..
  from assms have hi: "HIWORD ?l = y"
    unfolding HIWORD_eq MAKELPARAM_def MAKELONG_def low_word_scast
    by - (rule bit_word_eqI, auto simp: bit_simps dest: bit_imp_le_length)
  show "y_coordinate ?l = scast y"
    unfolding scast_HIWORD [symmetric] hi ..
qed

subsection \<open>One message at a bound handle\<close>

lemmas message_codes =
  WM_CREATE_def WM_NCCALCSIZE_def WM_DESTROY_def WM_PAINT_def WM_SETCURSOR_def WM_GETMINMAXINFO_def WM_NCCREATE_def
  WM_NCDESTROY_def WM_NCHITTEST_def WM_MOUSEMOVE_def WM_LBUTTONUP_def

lemma WndProc_bound:
  assumes "message \<noteq> WM_NCCREATE" "user_data w window = this'" "this' \<noteq> 0"
  shows "WndProc plat T window message wParam lParam w =
     (case message_switch plat T this' window message wParam lParam w of
        Some r \<Rightarrow> r
      | None \<Rightarrow> call_on_message plat T this' window message wParam lParam w)"
  using assms by (simp add: WndProc_def bind_on_create_def GetWindowLongPtr_def)

lemma handled_once_record [simp]:
  "handled_once w (record_call c p h w) e \<longleftrightarrow> e = (c, p, h)"
  "handled_once w ((record_call c p h w)\<lparr>app := a\<rparr>) e \<longleftrightarrow> e = (c, p, h)"
  "handled_once w (PostQuitMessage n (record_call c p h w)) e \<longleftrightarrow> e = (c, p, h)"
  by (auto simp: handled_once_def record_call_def PostQuitMessage_def)

lemma on_destroy_handled:
  assumes "this' \<noteq> 0"
  shows "\<exists>w'. call_on_destroy T this' hwnd w = Inr w'
           \<and> handled_once w w' (most_derived T (on_destroy_call hwnd), this', on_destroy_call hwnd)"
  using assms
  by (auto simp: call_on_destroy_def AppWindow_on_destroy_def MainWindow_on_destroy_def
      split: option.splits)

lemma on_left_button_up_handled:
  assumes "this' \<noteq> 0"
  shows "\<exists>w'. call_on_left_button_up T this' hwnd x y flags w = Inr w'
           \<and> handled_once w w' (most_derived T (on_left_button_up_call hwnd x y flags), this',
                 on_left_button_up_call hwnd x y flags)"
  using assms
  by (auto simp: call_on_left_button_up_def AppWindow_on_left_button_up_def split: option.splits)

lemma on_mouse_move_handled:
  assumes "this' \<noteq> 0"
  shows "\<exists>w'. call_on_mouse_move T this' hwnd x y flags w = Inr w'
           \<and> handled_once w w' (most_derived T (on_mouse_move_call hwnd x y flags), this',
                 on_mouse_move_call hwnd x y flags)"
  using assms
  by (auto simp: call_on_mouse_move_def AppWindow_on_mouse_move_def split: option.splits)

lemma on_hittest_handled:
  assumes "this' \<noteq> 0"
  shows "\<exists>r w'. call_on_hittest plat T this' hwnd x y w = Inr (r, w')
           \<and> handled_once w w' (most_derived T (on_hittest_call hwnd x y), this',
                 on_hittest_call hwnd x y)"
  using assms
  by (auto simp: call_on_hittest_def AppWindow_on_hittest_def split: option.splits prod.splits)

lemma on_paint_handled:
  assumes "this' \<noteq> 0"
  shows "\<exists>w'. call_on_paint T this' hwnd w = Inr w'
           \<and> handled_once w w' (most_derived T (on_paint_call hwnd), this', on_paint_call hwnd)"
  using assms
  by (auto simp: call_on_paint_def AppWindow_on_paint_def split: option.splits)

lemma on_set_cursor_handled:
  assumes "this' \<noteq> 0"
  shows "\<exists>r w'. call_on_set_cursor plat T this' hwnd c h m w = Inr (r, w')
           \<and> handled_once w w' (most_derived T (on_set_cursor_call hwnd c h m), this',
                 on_set_cursor_call hwnd c h m)"
  using assms
  by (auto simp: call_on_set_cursor_def AppWindow_on_set_cursor_def split: option.splits prod.splits)

lemma on_message_handled:
  "\<exists>r w'. call_on_message plat T this' hwnd m wp lp w = Inr (r, w')
     \<and> handled_once w w' (most_derived T (on_message_call hwnd m wp lp), this',
           on_message_call hwnd m wp lp)"
  by (auto simp: call_on_message_def AppWindow_on_message_def split: option.splits prod.splits)


lemma switch_handled:
  assumes "this' \<noteq> 0"
  shows "\<exists>r w'.
    (case message_switch plat T this' window message wParam lParam w of
       Some r \<Rightarrow> r
     | None \<Rightarrow> call_on_message plat T this' window message wParam lParam w) = Inr (r, w')
    \<and> handled_once w w'
         (most_derived T (routed_call window message wParam lParam), this',
          routed_call window message wParam lParam)"
proof -
  consider (destroy) "message = WM_DESTROY" | (up) "message = WM_LBUTTONUP"
    | (move) "message = WM_MOUSEMOVE" | (hit) "message = WM_NCHITTEST"
    | (paint) "message = WM_PAINT" | (cursor) "message = WM_SETCURSOR"
    | (other) "message \<notin> {WM_DESTROY, WM_LBUTTONUP, WM_MOUSEMOVE, WM_NCHITTEST, WM_PAINT, WM_SETCURSOR}"
    by auto
  then show ?thesis
  proof cases
    case destroy
    from on_destroy_handled [OF assms, of T window w] destroy show ?thesis
      by (auto simp: message_switch_def routed_call_def HANDLE_WM_DESTROY_def)
  next
    case up
    from on_left_button_up_handled [OF assms, of T window "x_coordinate lParam"
        "y_coordinate lParam" "key_flags wParam" w] up
    show ?thesis
      by (auto simp: message_switch_def routed_call_def HANDLE_WM_LBUTTONUP_def message_codes
          scast_LOWORD scast_HIWORD ucast_key_flags)
  next
    case move
    from on_mouse_move_handled [OF assms, of T window "x_coordinate lParam"
        "y_coordinate lParam" "key_flags wParam" w] move
    show ?thesis
      by (auto simp: message_switch_def routed_call_def HANDLE_WM_MOUSEMOVE_def message_codes
          scast_LOWORD scast_HIWORD ucast_key_flags)
  next
    case hit
    from on_hittest_handled [OF assms, of plat T window "x_coordinate lParam"
        "y_coordinate lParam" w] hit
    show ?thesis
      by (auto simp: message_switch_def routed_call_def HANDLE_WM_NCHITTEST_def message_codes
          scast_LOWORD scast_HIWORD)
  next
    case paint
    from on_paint_handled [OF assms, of T window w] paint show ?thesis
      by (auto simp: message_switch_def routed_call_def HANDLE_WM_PAINT_def message_codes)
  next
    case cursor
    from on_set_cursor_handled [OF assms, of plat T window wParam "low_order_word lParam"
        "high_order_word lParam" w] cursor
    show ?thesis
      by (auto simp: message_switch_def routed_call_def HANDLE_WM_SETCURSOR_def message_codes
          ucast_LOWORD ucast_HIWORD)
  next
    case other
    from on_message_handled [of plat T this' window message wParam lParam w] other
    show ?thesis
      by (auto simp: message_switch_def routed_call_def)
  qed
qed

lemma bind_on_create_calls:
  "bind_on_create window message lParam w = Inr w1 \<Longrightarrow> calls w1 = calls w"
  by (auto simp: bind_on_create_def SetWindowLongPtr_def Let_def split: if_splits)

lemma WndProc_after_bind:
  assumes "bind_on_create window message lParam w = Inr w1"
    and "user_data w1 window = this'" and "this' \<noteq> 0"
  shows "\<exists>r w'. WndProc plat T window message wParam lParam w = Inr (r, w')
    \<and> handled_once w1 w'
         (most_derived T (routed_call window message wParam lParam), this',
          routed_call window message wParam lParam)"
  using assms switch_handled [OF assms(3), of plat T window message wParam lParam w1]
  by (simp add: WndProc_def GetWindowLongPtr_def)

lemma WndProc_handled:
  assumes "message \<noteq> WM_NCCREATE" "user_data w window = this'" "this' \<noteq> 0"
  shows "\<exists>r w'. WndProc plat T window message wParam lParam w = Inr (r, w')
    \<and> handled_once w w'
         (most_derived T (routed_call window message wParam lParam), this',
          routed_call window message wParam lParam)"
  using assms by (intro WndProc_after_bind) (simp_all add: bind_on_create_def)

lemma deliver_keeps_binding:
  assumes "\<forall>m \<in> set ms. fst m \<noteq> WM_NCCREATE" and "user_data w window \<noteq> 0"
  shows "\<exists>w'. deliver plat T window ms w = Inr w'
    \<and> user_data w' = user_data w \<and> m_window w' = m_window w"
  using assms
proof (induction ms arbitrary: w)
  case Nil
  then show ?case by simp
next
  case (Cons m ms)
  obtain message wParam lParam where m: "m = (message, wParam, lParam)"
    by (cases m)
  with Cons.prems have "message \<noteq> WM_NCCREATE" by simp
  from WndProc_handled [OF this refl Cons.prems(2), of plat T wParam lParam]
  obtain r w1 where step: "WndProc plat T window message wParam lParam w = Inr (r, w1)"
    and same: "user_data w1 = user_data w" "m_window w1 = m_window w"
    by (auto simp: handled_once_def)
  from Cons.prems same have "\<forall>m \<in> set ms. fst m \<noteq> WM_NCCREATE" "user_data w1 window \<noteq> 0"
    by simp_all
  from Cons.IH [OF this] obtain w' where "deliver plat T window ms w1 = Inr w'"
    "user_data w' = user_data w1" "m_window w' = m_window w1"
    by blast
  with step same m show ?case by simp
qed


subsection \<open>Evaluation of the examples\<close>

lemmas example_defs = obj_def hwnd1_def bound_def Custom_def count_destroy_def track_mouse_def
  answer_seven_def desktop_def Plain_def Main_def blank_def zero_cell_def never_refused_def
  image_base_def default_answers_def

lemmas code_defs = AppWindow_def Window_def register_class_def create_def CreateWindow_def
  RegisterClassEx_def GetLastError_def WndProc_def bind_on_create_def SetWindowLongPtr_def
  GetWindowLongPtr_def message_switch_def call_on_message_def AppWindow_on_message_def
  record_call_def get_class_name_def get_current_module_def

subsection \<open>Construction\<close>






subsection \<open>Routing\<close>

lemma WndProc_at_owner:
  assumes "bind_on_create window message lParam w = Inr w1"
    and "user_data w1 window = this'" and "this' \<noteq> 0"
  shows "WndProc plat T window message wParam lParam w =
     (case message_switch plat T this' window message wParam lParam w1 of
        Some r \<Rightarrow> r
      | None \<Rightarrow> call_on_message plat T this' window message wParam lParam w1)"
  using assms by (simp add: WndProc_def GetWindowLongPtr_def)

lemmas cracker_defs = message_switch_def HANDLE_WM_DESTROY_def HANDLE_WM_LBUTTONUP_def
  HANDLE_WM_MOUSEMOVE_def HANDLE_WM_NCHITTEST_def HANDLE_WM_PAINT_def HANDLE_WM_SETCURSOR_def
  FORWARD_WM_NCHITTEST_def FORWARD_WM_SETCURSOR_def

lemmas member_defs = call_on_destroy_def call_on_left_button_up_def call_on_mouse_move_def
  call_on_hittest_def call_on_paint_def call_on_set_cursor_def call_on_message_def
  AppWindow_on_destroy_def AppWindow_on_left_button_up_def AppWindow_on_mouse_move_def
  AppWindow_on_hittest_def AppWindow_on_paint_def AppWindow_on_set_cursor_def
  AppWindow_on_message_def MainWindow_on_destroy_def PostQuitMessage_def record_call_def

lemmas decode_words = scast_LOWORD scast_HIWORD ucast_LOWORD ucast_HIWORD
  ucast_key_flags [symmetric] MAKELPARAM_coordinates MAKELPARAM_words

text \<open>
  C2. Let the pointer recovered from the handle's user data, after the creation block of
  the window procedure, be a non-null \<open>this'\<close> (for every message but \<open>WM_NCCREATE\<close> the
  creation block does nothing, \<open>w1\<close> is \<open>w\<close>, and the premise says that the handle is
  bound). For each of the six supported codes and a type \<open>T\<close> that defines the handler of
  the code as \<open>f\<close>, the window procedure returns, and what it has done is exactly one run
  of \<open>f\<close> on the object, with the arguments decoded from the payload words: the
  application's data is what \<open>f\<close> made of it, the call is the only one recorded and it is
  recorded for \<open>T\<close>, the answer is that of \<open>f\<close> where the handler has one and 0 otherwise,
  and nothing else has changed; in particular the default of the base has not run (no quit
  code is posted by an \<open>on_destroy\<close> of \<open>T\<close>). Where \<open>T\<close> does not define the handler, the
  member of the base runs instead, \<open>MainWindow\<close>'s for \<open>on_destroy\<close> of a type that
  derives from it. For every other code \<open>on_message\<close> runs once, \<open>T\<close>'s where it defines one,
  and its answer is returned.
\<close>

theorem dispatch_routes:
  assumes "bind_on_create window message lParam w = Inr w1"
    and "user_data w1 window = this'" and "this' \<noteq> 0"
  shows
    "(\<forall>f. message = WM_DESTROY \<and> T_on_destroy T = Some f \<longrightarrow>
        WndProc plat T window message wParam lParam w =
          Inr (0, w1\<lparr>app := f this' window (app w1),
                      calls := calls w1 @ [(T_member, this', on_destroy_call window)]\<rparr>))
     \<and> (\<forall>f. message = WM_LBUTTONUP \<and> T_on_left_button_up T = Some f \<longrightarrow>
        WndProc plat T window message wParam lParam w =
          Inr (0, w1\<lparr>app := f this' window (x_coordinate lParam) (y_coordinate lParam)
                               (key_flags wParam) (app w1),
                      calls := calls w1 @
                        [(T_member, this',
                          on_left_button_up_call window (x_coordinate lParam)
                            (y_coordinate lParam) (key_flags wParam))]\<rparr>))
     \<and> (\<forall>f. message = WM_MOUSEMOVE \<and> T_on_mouse_move T = Some f \<longrightarrow>
        WndProc plat T window message wParam lParam w =
          Inr (0, w1\<lparr>app := f this' window (x_coordinate lParam) (y_coordinate lParam)
                               (key_flags wParam) (app w1),
                      calls := calls w1 @
                        [(T_member, this',
                          on_mouse_move_call window (x_coordinate lParam)
                            (y_coordinate lParam) (key_flags wParam))]\<rparr>))
     \<and> (\<forall>f. message = WM_NCHITTEST \<and> T_on_hittest T = Some f \<longrightarrow>
        WndProc plat T window message wParam lParam w =
          Inr (ucast (fst (f this' window (x_coordinate lParam) (y_coordinate lParam) (app w1))),
               w1\<lparr>app := snd (f this' window (x_coordinate lParam) (y_coordinate lParam) (app w1)),
                   calls := calls w1 @
                     [(T_member, this',
                       on_hittest_call window (x_coordinate lParam) (y_coordinate lParam))]\<rparr>))
     \<and> (\<forall>f. message = WM_PAINT \<and> T_on_paint T = Some f \<longrightarrow>
        WndProc plat T window message wParam lParam w =
          Inr (0, w1\<lparr>app := f this' window (app w1),
                      calls := calls w1 @ [(T_member, this', on_paint_call window)]\<rparr>))
     \<and> (\<forall>f. message = WM_SETCURSOR \<and> T_on_set_cursor T = Some f \<longrightarrow>
        WndProc plat T window message wParam lParam w =
          Inr (ucast (fst (f this' window wParam (low_order_word lParam)
                             (high_order_word lParam) (app w1))),
               w1\<lparr>app := snd (f this' window wParam (low_order_word lParam)
                                (high_order_word lParam) (app w1)),
                   calls := calls w1 @
                     [(T_member, this',
                       on_set_cursor_call window wParam (low_order_word lParam)
                         (high_order_word lParam))]\<rparr>))
     \<and> (message = WM_DESTROY \<and> T_on_destroy T = None \<longrightarrow>
        WndProc plat T window message wParam lParam w =
          Inr (0, if derives_MainWindow T
                  then w1\<lparr>quit_codes := quit_codes w1 @ [1],
                          calls := calls w1 @ [(MainWindow_member, this', on_destroy_call window)]\<rparr>
                  else w1\<lparr>calls := calls w1 @ [(AppWindow_member, this', on_destroy_call window)]\<rparr>))
     \<and> (message = WM_LBUTTONUP \<and> T_on_left_button_up T = None \<longrightarrow>
        WndProc plat T window message wParam lParam w =
          Inr (0, w1\<lparr>calls := calls w1 @
                        [(AppWindow_member, this',
                          on_left_button_up_call window (x_coordinate lParam)
                            (y_coordinate lParam) (key_flags wParam))]\<rparr>))
     \<and> (message = WM_MOUSEMOVE \<and> T_on_mouse_move T = None \<longrightarrow>
        WndProc plat T window message wParam lParam w =
          Inr (0, w1\<lparr>calls := calls w1 @
                        [(AppWindow_member, this',
                          on_mouse_move_call window (x_coordinate lParam)
                            (y_coordinate lParam) (key_flags wParam))]\<rparr>))
     \<and> (message = WM_NCHITTEST \<and> T_on_hittest T = None \<longrightarrow>
        WndProc plat T window message wParam lParam w =
          Inr (ucast (ucast (DefWindowProc plat window WM_NCHITTEST 0
                               (lParam AND 0xFFFFFFFF)) :: 32 word),
               w1\<lparr>calls := calls w1 @
                     [(AppWindow_member, this',
                       on_hittest_call window (x_coordinate lParam) (y_coordinate lParam))]\<rparr>))
     \<and> (message = WM_PAINT \<and> T_on_paint T = None \<longrightarrow>
        WndProc plat T window message wParam lParam w =
          Inr (0, w1\<lparr>calls := calls w1 @ [(AppWindow_member, this', on_paint_call window)]\<rparr>))
     \<and> (message = WM_SETCURSOR \<and> T_on_set_cursor T = None \<longrightarrow>
        WndProc plat T window message wParam lParam w =
          Inr (ucast (ucast (DefWindowProc plat window WM_SETCURSOR wParam
                               (lParam AND 0xFFFFFFFF)) :: 32 word),
               w1\<lparr>calls := calls w1 @
                     [(AppWindow_member, this',
                       on_set_cursor_call window wParam (low_order_word lParam)
                         (high_order_word lParam))]\<rparr>))
     \<and> (\<forall>f. message \<notin> {WM_DESTROY, WM_LBUTTONUP, WM_MOUSEMOVE, WM_NCHITTEST, WM_PAINT,
                         WM_SETCURSOR}
          \<and> T_on_message T = Some f \<longrightarrow>
        WndProc plat T window message wParam lParam w =
          Inr (fst (f this' window message wParam lParam (app w1)),
               w1\<lparr>app := snd (f this' window message wParam lParam (app w1)),
                   calls := calls w1 @
                     [(T_member, this', on_message_call window message wParam lParam)]\<rparr>))
     \<and> (message \<notin> {WM_DESTROY, WM_LBUTTONUP, WM_MOUSEMOVE, WM_NCHITTEST, WM_PAINT,
                     WM_SETCURSOR}
          \<and> T_on_message T = None \<longrightarrow>
        WndProc plat T window message wParam lParam w =
          Inr (DefWindowProc plat window message wParam lParam,
               w1\<lparr>calls := calls w1 @
                     [(AppWindow_member, this', on_message_call window message wParam lParam)]\<rparr>))"
  unfolding WndProc_at_owner [OF assms]
  by (intro conjI allI impI; elim conjE)
    (simp_all add: cracker_defs member_defs decode_words message_codes split: prod.splits)

theorem dispatch_routes_witness:
  "WndProc desktop Custom hwnd1 WM_MOUSEMOVE 8 0xFFF60014 bound =
     Inr (0, bound\<lparr>app := 1,
                   calls := [(T_member, obj, on_mouse_move_call hwnd1 20 (- 10) 8)]\<rparr>)
   \<and> WndProc desktop Custom hwnd1 WM_DESTROY 0 0 bound =
     Inr (0, bound\<lparr>app := 100, calls := [(T_member, obj, on_destroy_call hwnd1)]\<rparr>)
   \<and> WndProc desktop Dragged hwnd1 WM_NCHITTEST 0 0x00C80064 bound =
     Inr (2, bound\<lparr>app := 1, calls := [(T_member, obj, on_hittest_call hwnd1 100 200)]\<rparr>)
   \<and> WndProc desktop Custom hwnd1 WM_PAINT 0 0 bound =
     Inr (0, bound\<lparr>calls := [(AppWindow_member, obj, on_paint_call hwnd1)]\<rparr>)
   \<and> WndProc desktop Custom hwnd1 WM_NCDESTROY 0 0 bound =
     Inr (7, bound\<lparr>calls := [(T_member, obj, on_message_call hwnd1 WM_NCDESTROY 0 0)]\<rparr>)"
proof -
  have b: "bind_on_create hwnd1 m l bound = Inr bound" if "m \<noteq> WM_NCCREATE" for m l
    using that by (simp add: bind_on_create_def)
  have u: "user_data bound hwnd1 = obj" "obj \<noteq> 0" "calls bound = []" "app bound = 0"
    by (simp_all add: example_defs)
  have x: "x_coordinate (0xFFF60014 :: 64 word) = 20" "y_coordinate (0xFFF60014 :: 64 word) = - 10"
    "x_coordinate (0x00C80064 :: 64 word) = 100" "y_coordinate (0x00C80064 :: 64 word) = 200"
    "key_flags (8 :: 64 word) = 8"
    by (simp_all add: x_coordinate_def y_coordinate_def key_flags_def)
  have t: "T_on_mouse_move Custom = Some track_mouse" "T_on_destroy Custom = Some count_destroy"
    "T_on_hittest Dragged = Some always_caption" "T_on_paint Custom = None"
    "T_on_message Custom = Some answer_seven"
    by (simp_all add: Custom_def Dragged_def Plain_def)
  from dispatch_routes [where window = hwnd1 and message = WM_MOUSEMOVE and lParam = "0xFFF60014"
           and w = bound and ?w1.0 = bound and this' = obj and plat = desktop and T = Custom
           and wParam = 8]
       dispatch_routes [where window = hwnd1 and message = WM_DESTROY and lParam = 0
           and w = bound and ?w1.0 = bound and this' = obj and plat = desktop and T = Custom
           and wParam = 0]
       dispatch_routes [where window = hwnd1 and message = WM_NCHITTEST and lParam = "0x00C80064"
           and w = bound and ?w1.0 = bound and this' = obj and plat = desktop and T = Dragged
           and wParam = 0]
       dispatch_routes [where window = hwnd1 and message = WM_PAINT and lParam = 0
           and w = bound and ?w1.0 = bound and this' = obj and plat = desktop and T = Custom
           and wParam = 0]
       dispatch_routes [where window = hwnd1 and message = WM_NCDESTROY and lParam = 0
           and w = bound and ?w1.0 = bound and this' = obj and plat = desktop and T = Custom
           and wParam = 0]
       b u x t
  show ?thesis
    by (simp add: message_codes track_mouse_def count_destroy_def always_caption_def
        answer_seven_def)
qed


subsection \<open>The failure message\<close>

lemma strip_line_break_CRLF: "strip_line_break (d @ CRLF) = d"
  by (simp add: strip_line_break_def CRLF_def)

lemma strip_line_break_other:
  assumes "\<And>d'. d \<noteq> d' @ CRLF"
  shows "strip_line_break d = d"
proof -
  have "d = take (size d - 2) d @ drop (size d - 2) d" by simp
  with assms [of "take (size d - 2) d"] have "drop (size d - 2) d \<noteq> CRLF" by metis
  then show ?thesis by (simp add: strip_line_break_def)
qed

text \<open>
  C9. For every context message and error code, \<open>format\<close> returns
  \<open>"<message>: error <code>"\<close> when the platform has no description of the code, and
  \<open>"<message>: error <code>: <description>"\<close> when it has one; a description that ends in
  the line break \<open>"\r\n"\<close> loses that one line break, any other description is appended
  as it is. The code is printed in decimal.
\<close>

theorem format_message:
  "(table error_code = None \<longrightarrow>
      format table message error_code
        = message @ '': error '' @ decimal (unat error_code))
   \<and> (\<forall>d. table error_code = Some (d @ CRLF) \<longrightarrow>
      format table message error_code
        = message @ '': error '' @ decimal (unat error_code) @ '': '' @ d)
   \<and> (\<forall>d. table error_code = Some d \<and> (\<forall>d'. d \<noteq> d' @ CRLF) \<longrightarrow>
      format table message error_code
        = message @ '': error '' @ decimal (unat error_code) @ '': '' @ d)"
  by (simp add: format_def strip_line_break_CRLF strip_line_break_other)

theorem format_message_witness:
  "format error_table ''CreateWindow'' 5 = ''CreateWindow: error 5: Access is denied.''
   \<and> format error_table ''CreateWindow'' 87
       = ''CreateWindow: error 87: The parameter is incorrect.'' @ CRLF
   \<and> format error_table ''CreateWindow'' 14 = ''CreateWindow: error 14: Out of storage''
   \<and> format error_table ''RegisterClassEx'' 1410 = ''RegisterClassEx: error 1410''"
proof -
  have a: "error_table 5 = Some (''Access is denied.'' @ CRLF)"
    "error_table 87 = Some ((''The parameter is incorrect.'' @ CRLF) @ CRLF)"
    "error_table 14 = Some ''Out of storage''"
    "error_table 1410 = None"
    by (simp_all add: error_table_def)
  have b: "\<forall>d'. ''Out of storage'' \<noteq> d' @ CRLF"
    by (simp add: CRLF_def append_eq_Cons_conv)
  have d: "decimal (unat (5 :: 32 word)) = ''5''" "decimal (unat (87 :: 32 word)) = ''87''"
    "decimal (unat (14 :: 32 word)) = ''14''" "decimal (unat (1410 :: 32 word)) = ''1410''"
    by code_simp+
  from format_message [of error_table 5 "''CreateWindow''"]
       format_message [of error_table 87 "''CreateWindow''"]
       format_message [of error_table 14 "''CreateWindow''"]
       format_message [of error_table 1410 "''RegisterClassEx''"] a b d
  show ?thesis by simp
qed

subsection \<open>The class name\<close>

text \<open>
  C7, as stated, fails. \<open>Plain\<close> and \<open>Twin\<close> are two concrete types; in a build where
  their instances of the window procedure are one function at one address, both get the
  same class name.
\<close>

theorem folded_types_share_a_name:
  "Plain \<noteq> Twin \<and> WndProc_address Plain = WndProc_address Twin
   \<and> get_class_name Plain = get_class_name Twin"
proof -
  have "type_name Plain \<noteq> type_name Twin"
    by (simp add: Twin_def Plain_def)
  then have "Plain \<noteq> Twin" by auto
  then show ?thesis by (simp add: Twin_def get_class_name_def)
qed

text \<open>
  C7, amended. The class name of a concrete type is a function of the address of its
  window procedure alone, and two types have the same class name exactly when their
  window procedures have the same address: types with window procedures at distinct
  addresses never share a class name, and types whose window procedures share an address
  always do.
\<close>

theorem class_names_differ:
  "get_class_name T1 = get_class_name T2 \<longleftrightarrow> WndProc_address T1 = WndProc_address T2"
proof
  assume "get_class_name T1 = get_class_name T2"
  then have "unat (WndProc_address T1) = unat (WndProc_address T2)"
    unfolding get_class_name_def by (rule decimal_inj)
  then show "WndProc_address T1 = WndProc_address T2"
    by (simp add: word_unat_eq_iff)
next
  assume "WndProc_address T1 = WndProc_address T2"
  then show "get_class_name T1 = get_class_name T2"
    by (simp add: get_class_name_def)
qed

lemma decimal_numeral:
  "decimal (numeral k) =
     (if numeral k < (10 :: nat) then [digit_char (numeral k)]
      else decimal (numeral k div 10) @ [digit_char (numeral k mod 10)])"
  by (rule decimal.simps)

lemma decimal_digit: "decimal 0 = ''0''" "decimal 1 = ''1''" "decimal (Suc 0) = ''1''"
  by (simp_all add: decimal.simps digit_char_def)

lemma digit_chars:
  "digit_char 0 = CHR ''0''" "digit_char 1 = CHR ''1''" "digit_char 2 = CHR ''2''"
  "digit_char 3 = CHR ''3''" "digit_char 4 = CHR ''4''" "digit_char 5 = CHR ''5''"
  "digit_char 6 = CHR ''6''" "digit_char 7 = CHR ''7''" "digit_char 8 = CHR ''8''"
  "digit_char 9 = CHR ''9''" "digit_char (Suc 0) = CHR ''1''"
  by (simp_all add: digit_char_def)

theorem class_names_differ_witness:
  "get_class_name Plain = ''140697251483648'' \<and> get_class_name Main = ''140697251487744''
   \<and> get_class_name Plain \<noteq> get_class_name Main"
proof -
  have "get_class_name Plain = ''140697251483648''" "get_class_name Main = ''140697251487744''"
    by (simp_all add: get_class_name_def Plain_def Main_def decimal_numeral decimal_digit digit_chars)
  moreover have "WndProc_address Plain \<noteq> WndProc_address Main"
    by (simp add: Plain_def Main_def)
  with class_names_differ [of Plain Main] have "get_class_name Plain \<noteq> get_class_name Main"
    by simp
  ultimately show ?thesis by simp
qed

subsection \<open>A handle without an owner\<close>

text \<open>
  C3. When the pointer recovered from the handle's user data is null, the window
  procedure skips the \<open>switch\<close>, also for the six supported codes, and makes the final
  call \<open>this_->on_message(...)\<close> through that null pointer: \<open>on_message\<close> runs with \<open>this\<close>
  null, \<open>T\<close>'s where it defines one and else the default, and its answer is returned. So
  dispatch does proceed although no object is bound, for every such message. No typed
  handler has run: the one call recorded is that of \<open>on_message\<close>, and the state is
  otherwise what \<open>on_message\<close> left.
\<close>

theorem unbound_dispatch_calls_through_null:
  assumes "bind_on_create window message lParam w = Inr w1"
    and "GetWindowLongPtr w1 window = 0"
  shows
    "(\<forall>f. T_on_message T = Some f \<longrightarrow>
        WndProc plat T window message wParam lParam w =
          Inr (fst (f 0 window message wParam lParam (app w1)),
               w1\<lparr>app := snd (f 0 window message wParam lParam (app w1)),
                   calls := calls w1 @
                     [(T_member, 0, on_message_call window message wParam lParam)]\<rparr>))
     \<and> (T_on_message T = None \<longrightarrow>
        WndProc plat T window message wParam lParam w =
          Inr (DefWindowProc plat window message wParam lParam,
               w1\<lparr>calls := calls w1 @
                     [(AppWindow_member, 0, on_message_call window message wParam lParam)]\<rparr>))"
  using assms
  by (simp add: WndProc_def call_on_message_def AppWindow_on_message_def record_call_def
      split: prod.splits)

theorem unbound_dispatch_calls_through_null_witness:
  "WndProc desktop Custom hwnd1 WM_PAINT 0 0 blank =
     Inr (7, blank\<lparr>calls := [(T_member, 0, on_message_call hwnd1 WM_PAINT 0 0)]\<rparr>)
   \<and> WndProc desktop Main hwnd1 WM_DESTROY 0 0 blank =
     Inr (0, blank\<lparr>calls := [(AppWindow_member, 0, on_message_call hwnd1 WM_DESTROY 0 0)]\<rparr>)
   \<and> WndProc desktop Main hwnd1 WM_GETMINMAXINFO 0 0x14F700 blank =
     Inr (0, blank\<lparr>calls :=
                 [(AppWindow_member, 0, on_message_call hwnd1 WM_GETMINMAXINFO 0 0x14F700)]\<rparr>)"
proof -
  have b: "bind_on_create hwnd1 m l blank = Inr blank" if "m \<noteq> WM_NCCREATE" for m l
    using that by (simp add: bind_on_create_def)
  have g: "GetWindowLongPtr blank hwnd1 = 0" "app blank = 0" "calls blank = []"
    by (simp_all add: GetWindowLongPtr_def blank_def zero_cell_def)
  have t: "T_on_message Custom = Some answer_seven" "T_on_message Main = None"
    by (simp_all add: Custom_def Main_def)
  have d: "DefWindowProc desktop hwnd1 WM_DESTROY 0 0 = 0"
    "DefWindowProc desktop hwnd1 WM_GETMINMAXINFO 0 0x14F700 = 0"
    by (simp_all add: desktop_def default_answers_def message_codes)
  from unbound_dispatch_calls_through_null [where window = hwnd1 and message = WM_PAINT
           and lParam = 0 and w = blank and ?w1.0 = blank and T = Custom and plat = desktop
           and wParam = 0]
       unbound_dispatch_calls_through_null [where window = hwnd1 and message = WM_DESTROY
           and lParam = 0 and w = blank and ?w1.0 = blank and T = Main and plat = desktop
           and wParam = 0]
       unbound_dispatch_calls_through_null [where window = hwnd1
           and message = WM_GETMINMAXINFO and lParam = "0x14F700" and w = blank
           and ?w1.0 = blank and T = Main and plat = desktop and wParam = 0]
       b g t d
  show ?thesis
    by (simp add: message_codes answer_seven_def)
qed

subsection \<open>The binding over time\<close>

lemma WndProc_binds:
  assumes "lParam \<noteq> 0" and "lpCreateParams w lParam \<noteq> 0"
  shows "\<exists>r w'. WndProc plat T window WM_NCCREATE wParam lParam w = Inr (r, w')
    \<and> user_data w' = (user_data w)(window := lpCreateParams w lParam)"
proof -
  define w1 where "w1 = SetWindowLongPtr window (lpCreateParams w lParam)
                          (w\<lparr>m_window := (m_window w)(lpCreateParams w lParam := window)\<rparr>)"
  from assms have b: "bind_on_create window WM_NCCREATE lParam w = Inr w1"
    by (simp add: bind_on_create_def w1_def Let_def)
  have u: "user_data w1 = (user_data w)(window := lpCreateParams w lParam)"
    by (simp add: w1_def SetWindowLongPtr_def)
  then have "user_data w1 window = lpCreateParams w lParam" by simp
  from WndProc_after_bind [OF b this assms(2), of plat T wParam] u show ?thesis
    by (auto simp: handled_once_def)
qed

text \<open>
  C8. The user data of a handle is written by the creation block of the window
  procedure, on \<open>WM_NCCREATE\<close>, with the \<open>lpCreateParams\<close> of the message. No other message
  changes it: after any sequence of messages without \<open>WM_NCCREATE\<close> delivered to a bound
  handle (the destroy message included) every handle's user data is what it was, so each
  later lookup recovers the pointer stored at bind time.
\<close>

theorem binding_is_kept:
  "(lParam \<noteq> 0 \<and> lpCreateParams w lParam \<noteq> 0 \<longrightarrow>
      (\<exists>r w'. WndProc plat T window WM_NCCREATE wParam lParam w = Inr (r, w')
         \<and> user_data w' = (user_data w)(window := lpCreateParams w lParam)))
   \<and> ((\<forall>m \<in> set ms. fst m \<noteq> WM_NCCREATE) \<and> user_data w window \<noteq> 0 \<longrightarrow>
      (\<exists>w'. deliver plat T window ms w = Inr w' \<and> user_data w' = user_data w))"
proof (intro conjI impI)
  assume "lParam \<noteq> 0 \<and> lpCreateParams w lParam \<noteq> 0"
  then show "\<exists>r w'. WndProc plat T window WM_NCCREATE wParam lParam w = Inr (r, w')
         \<and> user_data w' = (user_data w)(window := lpCreateParams w lParam)"
    by (intro WndProc_binds) simp_all
next
  assume "(\<forall>m \<in> set ms. fst m \<noteq> WM_NCCREATE) \<and> user_data w window \<noteq> 0"
  then have "\<exists>w'. deliver plat T window ms w = Inr w'
    \<and> user_data w' = user_data w \<and> m_window w' = m_window w"
    by (intro deliver_keeps_binding) simp_all
  then show "\<exists>w'. deliver plat T window ms w = Inr w' \<and> user_data w' = user_data w"
    by blast
qed

theorem binding_is_kept_witness:
  "(\<exists>r w'. WndProc desktop Main hwnd1 WM_NCCREATE 0 0x14F9D0
              (blank\<lparr>lpCreateParams := zero_cell(0x14F9D0 := obj)\<rparr>) = Inr (r, w')
      \<and> user_data w' = zero_cell(hwnd1 := obj))
   \<and> (\<exists>w'. deliver desktop Main hwnd1
              [(WM_PAINT, 0, 0), (WM_DESTROY, 0, 0), (WM_NCDESTROY, 0, 0)] bound = Inr w'
      \<and> user_data w' hwnd1 = obj)"
proof -
  have a: "(0x14F9D0 :: 64 word) \<noteq> 0"
    "lpCreateParams (blank\<lparr>lpCreateParams := zero_cell(0x14F9D0 := obj)\<rparr>) 0x14F9D0 = obj"
    "obj \<noteq> 0" "user_data (blank\<lparr>lpCreateParams := zero_cell(0x14F9D0 := obj)\<rparr>) = zero_cell"
    by (simp_all add: example_defs)
  have b: "\<forall>m \<in> set [(WM_PAINT, 0, 0), (WM_DESTROY, 0, 0), (WM_NCDESTROY, (0 :: 64 word), (0 :: 64 word))].
             fst m \<noteq> WM_NCCREATE"
    "user_data bound hwnd1 = obj"
    by (simp_all add: example_defs message_codes)
  from binding_is_kept [of "0x14F9D0" "blank\<lparr>lpCreateParams := zero_cell(0x14F9D0 := obj)\<rparr>"
      desktop Main hwnd1 0 "[]" ] a
  have 1: "\<exists>r w'. WndProc desktop Main hwnd1 WM_NCCREATE 0 0x14F9D0
              (blank\<lparr>lpCreateParams := zero_cell(0x14F9D0 := obj)\<rparr>) = Inr (r, w')
      \<and> user_data w' = zero_cell(hwnd1 := obj)"
    by simp
  from binding_is_kept [of 1 bound desktop Main hwnd1 0
      "[(WM_PAINT, 0, 0), (WM_DESTROY, 0, 0), (WM_NCDESTROY, 0, 0)]"] b a(3)
  have 2: "\<exists>w'. deliver desktop Main hwnd1
              [(WM_PAINT, 0, 0), (WM_DESTROY, 0, 0), (WM_NCDESTROY, 0, 0)] bound = Inr w'
      \<and> user_data w' hwnd1 = obj"
    by auto
  from 1 2 show ?thesis by blast
qed

subsection \<open>Handlers without a result\<close>

lemma WndProc_void:
  assumes "message \<in> {WM_DESTROY, WM_LBUTTONUP, WM_MOUSEMOVE, WM_PAINT}"
    and "user_data w window = this'" and "this' \<noteq> 0"
  shows "\<exists>w'. WndProc plat T window message wParam lParam w = Inr (0, w')
    \<and> handled_once w w'
         (most_derived T (routed_call window message wParam lParam), this',
          routed_call window message wParam lParam)"
proof -
  from assms(1) have n: "message \<noteq> WM_NCCREATE" by (auto simp: message_codes)
  from assms(1) consider (destroy) "message = WM_DESTROY" | (up) "message = WM_LBUTTONUP"
    | (move) "message = WM_MOUSEMOVE" | (paint) "message = WM_PAINT"
    by auto
  then show ?thesis
  proof cases
    case destroy
    from on_destroy_handled [OF assms(3), of T window w] destroy show ?thesis
      unfolding WndProc_bound [OF n assms(2,3)]
      by (auto simp: message_switch_def routed_call_def HANDLE_WM_DESTROY_def)
  next
    case up
    from on_left_button_up_handled [OF assms(3), of T window "x_coordinate lParam"
        "y_coordinate lParam" "key_flags wParam" w] up
    show ?thesis
      unfolding WndProc_bound [OF n assms(2,3)]
      by (auto simp: message_switch_def routed_call_def HANDLE_WM_LBUTTONUP_def message_codes
          scast_LOWORD scast_HIWORD ucast_key_flags)
  next
    case move
    from on_mouse_move_handled [OF assms(3), of T window "x_coordinate lParam"
        "y_coordinate lParam" "key_flags wParam" w] move
    show ?thesis
      unfolding WndProc_bound [OF n assms(2,3)]
      by (auto simp: message_switch_def routed_call_def HANDLE_WM_MOUSEMOVE_def message_codes
          scast_LOWORD scast_HIWORD ucast_key_flags)
  next
    case paint
    from on_paint_handled [OF assms(3), of T window w] paint show ?thesis
      unfolding WndProc_bound [OF n assms(2,3)]
      by (auto simp: message_switch_def routed_call_def HANDLE_WM_PAINT_def message_codes)
  qed
qed

text \<open>
  C4, as stated, fails. \<open>Custom\<close> defines \<open>on_message\<close> to answer 7. For \<open>WM_PAINT\<close> at its
  bound handle the window procedure returns 0, while \<open>on_message\<close> for the same message
  yields 7.
\<close>

theorem fallback_result_not_returned:
  "returned (WndProc desktop Custom hwnd1 WM_PAINT 0 0 bound) = Some 0
   \<and> returned (call_on_message desktop Custom obj hwnd1 WM_PAINT 0 0 bound) = Some 7"
  by (simp add: returned_def example_defs code_defs message_codes HANDLE_WM_PAINT_def
      call_on_paint_def AppWindow_on_paint_def)

text \<open>
  C4, amended. For the destroy, left-button-up, mouse-move and paint messages at a bound
  handle the window procedure calls the handler of the message and returns 0; that one
  call is all it makes, and it is not the call of \<open>on_message\<close>.
\<close>

theorem void_handlers_return_zero:
  assumes "message \<in> {WM_DESTROY, WM_LBUTTONUP, WM_MOUSEMOVE, WM_PAINT}"
    and "user_data w window = this'" and "this' \<noteq> 0"
  shows "\<exists>w'. WndProc plat T window message wParam lParam w = Inr (0, w')
    \<and> calls w' = calls w @
         [(most_derived T (routed_call window message wParam lParam), this',
           routed_call window message wParam lParam)]
    \<and> routed_call window message wParam lParam \<noteq> on_message_call window message wParam lParam"
proof -
  from assms(1) have "routed_call window message wParam lParam
      \<noteq> on_message_call window message wParam lParam"
    by (auto simp: routed_call_def message_codes)
  with WndProc_void [OF assms, of plat T wParam lParam] show ?thesis
    by (auto simp: handled_once_def)
qed

theorem void_handlers_return_zero_witness:
  "\<exists>w'. WndProc desktop Custom hwnd1 WM_PAINT 0 0 bound = Inr (0, w')
     \<and> calls w' = [(AppWindow_member, obj, on_paint_call hwnd1)]"
proof -
  have "WM_PAINT \<in> {WM_DESTROY, WM_LBUTTONUP, WM_MOUSEMOVE, WM_PAINT}"
    "user_data bound hwnd1 = obj" "obj \<noteq> 0"
    by (simp_all add: example_defs)
  from void_handlers_return_zero [OF this, of desktop Custom 0 0] show ?thesis
    by (simp add: routed_call_def message_codes Custom_def bound_def blank_def)
qed

subsection \<open>Destruction of a main window\<close>

text \<open>
  C6, as stated, fails. \<open>Main\<close> derives from \<open>MainWindow\<close> and defines no handler. After
  \<open>WM_DESTROY\<close> the platform sends \<open>WM_NCDESTROY\<close> to the same handle, and the window
  procedure hands it to \<open>on_message\<close> of the same object: a handler runs after the destroy
  handler.
\<close>

theorem handlers_run_after_destroy:
  "map_sum id calls
     (deliver desktop Main hwnd1 [(WM_DESTROY, 0, 0), (WM_NCDESTROY, 0, 0)] bound)
   = Inr [(MainWindow_member, obj, on_destroy_call hwnd1),
          (AppWindow_member, obj, on_message_call hwnd1 WM_NCDESTROY 0 0)]"
  by (simp add: example_defs code_defs message_codes HANDLE_WM_DESTROY_def call_on_destroy_def
      MainWindow_on_destroy_def PostQuitMessage_def)

text \<open>
  C6, amended. For a type that derives from \<open>MainWindow\<close> and does not define
  \<open>on_destroy\<close> itself, the destroy message at a bound handle calls
  \<open>MainWindow::on_destroy\<close>, which posts the quit message with exit code 1; within that
  run of the window procedure no other handler is called, nothing else changes, and 0 is
  returned.
\<close>

theorem main_window_destroy_posts_quit:
  assumes "derives_MainWindow T" and "T_on_destroy T = None"
    and "user_data w window = this'" and "this' \<noteq> 0"
  shows "WndProc plat T window WM_DESTROY wParam lParam w =
     Inr (0, w\<lparr>quit_codes := quit_codes w @ [1],
               calls := calls w @ [(MainWindow_member, this', on_destroy_call window)]\<rparr>)"
proof -
  have "WM_DESTROY \<noteq> WM_NCCREATE" by (simp add: message_codes)
  from WndProc_bound [OF this assms(3,4), of plat T wParam lParam] assms(1,2,4) show ?thesis
    by (simp add: message_switch_def HANDLE_WM_DESTROY_def call_on_destroy_def
        MainWindow_on_destroy_def PostQuitMessage_def record_call_def)
qed

theorem main_window_destroy_posts_quit_witness:
  "WndProc desktop Main hwnd1 WM_DESTROY 0 0 bound =
     Inr (0, bound\<lparr>quit_codes := [1],
                   calls := [(MainWindow_member, obj, on_destroy_call hwnd1)]\<rparr>)"
proof -
  have "derives_MainWindow Main" "T_on_destroy Main = None" "user_data bound hwnd1 = obj"
    "obj \<noteq> 0" "quit_codes bound = []" "calls bound = []"
    by (simp_all add: example_defs)
  with main_window_destroy_posts_quit [of Main bound hwnd1 obj desktop 0 0] show ?thesis
    by simp
qed


subsection \<open>Default answers\<close>

lemma default_hittest:
  assumes "T_on_hittest T = None" and "user_data w window = this'" and "this' \<noteq> 0"
  shows "returned (WndProc plat T window WM_NCHITTEST wParam lParam w)
    = Some (ucast (ucast (DefWindowProc plat window WM_NCHITTEST 0 (lParam AND 0xFFFFFFFF)) :: 32 word))"
proof -
  have "WM_NCHITTEST \<noteq> WM_NCCREATE" by (simp add: message_codes)
  from WndProc_bound [OF this assms(2,3), of plat T wParam lParam] assms(1,3) show ?thesis
    by (simp add: message_switch_def message_codes HANDLE_WM_NCHITTEST_def call_on_hittest_def
        AppWindow_on_hittest_def FORWARD_WM_NCHITTEST_def returned_def scast_LOWORD scast_HIWORD
        MAKELPARAM_coordinates)
qed

lemma default_set_cursor:
  assumes "T_on_set_cursor T = None" and "user_data w window = this'" and "this' \<noteq> 0"
  shows "returned (WndProc plat T window WM_SETCURSOR wParam lParam w)
    = Some (ucast (ucast (DefWindowProc plat window WM_SETCURSOR wParam (lParam AND 0xFFFFFFFF)) :: 32 word))"
proof -
  have "WM_SETCURSOR \<noteq> WM_NCCREATE" by (simp add: message_codes)
  from WndProc_bound [OF this assms(2,3), of plat T wParam lParam] assms(1,3) show ?thesis
    by (simp add: message_switch_def message_codes HANDLE_WM_SETCURSOR_def call_on_set_cursor_def
        AppWindow_on_set_cursor_def FORWARD_WM_SETCURSOR_def returned_def ucast_LOWORD ucast_HIWORD
        MAKELPARAM_words)
qed

text \<open>
  C10, as stated, fails on a 64-bit target. \<open>Plain\<close> defines no handler. The platform
  answers the hit test at the origin with \<open>HTTRANSPARENT\<close>, which is \<open>-1\<close>; \<open>on_hittest\<close>
  returns it as a \<open>UINT\<close>, and the window procedure returns \<open>0xFFFFFFFF\<close>.
\<close>

theorem default_answer_truncated:
  "returned (WndProc desktop Plain hwnd1 WM_NCHITTEST 0 0 bound) = Some 0xFFFFFFFF
   \<and> DefWindowProc desktop hwnd1 WM_NCHITTEST 0 0 = 0xFFFFFFFFFFFFFFFF"
proof -
  have t: "(ucast (ucast (- 1 :: 64 word) :: 32 word) :: 64 word) = 0xFFFFFFFF"
    by code_simp
  show ?thesis
    by (simp add: returned_def example_defs code_defs message_codes HANDLE_WM_NCHITTEST_def
        call_on_hittest_def AppWindow_on_hittest_def FORWARD_WM_NCHITTEST_def
        scast_LOWORD scast_HIWORD MAKELPARAM_coordinates t)
qed

text \<open>
  C10, amended. At a bound handle of a type that does not define \<open>on_hittest\<close>, the
  window procedure answers a hit test with the low 32 bits of what \<open>DefWindowProc\<close> answers
  to \<open>WM_NCHITTEST\<close> with \<open>wParam\<close> 0 and the low 32 bits of \<open>lParam\<close>; the two are equal
  whenever the platform's answer is below \<open>2^32\<close>. The same holds for \<open>on_set_cursor\<close> and
  \<open>WM_SETCURSOR\<close>, with the \<open>wParam\<close> of the message.
\<close>

theorem default_answers_pass_through:
  assumes "user_data w window = this'" and "this' \<noteq> 0"
  shows
    "(T_on_hittest T = None \<longrightarrow>
        returned (WndProc plat T window WM_NCHITTEST wParam lParam w)
          = Some (ucast (ucast (DefWindowProc plat window WM_NCHITTEST 0 (lParam AND 0xFFFFFFFF)) :: 32 word)))
     \<and> (T_on_hittest T = None
          \<and> unat (DefWindowProc plat window WM_NCHITTEST 0 (lParam AND 0xFFFFFFFF)) < 2 ^ 32 \<longrightarrow>
        returned (WndProc plat T window WM_NCHITTEST wParam lParam w)
          = Some (DefWindowProc plat window WM_NCHITTEST 0 (lParam AND 0xFFFFFFFF)))
     \<and> (T_on_set_cursor T = None \<longrightarrow>
        returned (WndProc plat T window WM_SETCURSOR wParam lParam w)
          = Some (ucast (ucast (DefWindowProc plat window WM_SETCURSOR wParam (lParam AND 0xFFFFFFFF)) :: 32 word)))
     \<and> (T_on_set_cursor T = None
          \<and> unat (DefWindowProc plat window WM_SETCURSOR wParam (lParam AND 0xFFFFFFFF)) < 2 ^ 32 \<longrightarrow>
        returned (WndProc plat T window WM_SETCURSOR wParam lParam w)
          = Some (DefWindowProc plat window WM_SETCURSOR wParam (lParam AND 0xFFFFFFFF)))"
  using default_hittest [OF _ assms, of T plat wParam lParam]
    default_set_cursor [OF _ assms, of T plat wParam lParam]
  by (simp add: fits_32)

theorem default_answers_pass_through_witness:
  "returned (WndProc desktop Plain hwnd1 WM_NCHITTEST 0 0x00C80064 bound) = Some 1
   \<and> DefWindowProc desktop hwnd1 WM_NCHITTEST 0 0x00C80064 = 1
   \<and> returned (WndProc desktop Plain hwnd1 WM_SETCURSOR hwnd1 0x02000001 bound) = Some 0
   \<and> DefWindowProc desktop hwnd1 WM_SETCURSOR hwnd1 0x02000001 = 0"
proof -
  have a: "user_data bound hwnd1 = obj" "obj \<noteq> 0" "T_on_hittest Plain = None"
    "T_on_set_cursor Plain = None"
    by (simp_all add: example_defs)
  have b: "(0x00C80064 :: 64 word) AND 0xFFFFFFFF = 0x00C80064"
    "(0x02000001 :: 64 word) AND 0xFFFFFFFF = 0x02000001"
    by simp_all
  have c: "DefWindowProc desktop hwnd1 WM_NCHITTEST 0 0x00C80064 = 1"
    "DefWindowProc desktop hwnd1 WM_SETCURSOR hwnd1 0x02000001 = 0"
    by (simp_all add: example_defs message_codes)
  from default_answers_pass_through [OF a(1,2), of Plain desktop 0 "0x00C80064"]
       default_answers_pass_through [OF a(1,2), of Plain desktop hwnd1 "0x02000001"] a(3,4) b c
  show ?thesis by simp
qed

subsection \<open>Platform failures\<close>

lemma register_class_outcome:
  "register_class plat T this creation_params w =
     (if get_class_name T \<in> classes w
      then Inr (w\<lparr>last_error := ERROR_CLASS_ALREADY_EXISTS\<rparr>)
      else case registration_refused plat (get_class_name T) of
             Some code \<Rightarrow>
               if code \<noteq> ERROR_CLASS_ALREADY_EXISTS
               then Inl (win32_error (format (FormatMessageA plat) ''RegisterClassEx'' code))
               else Inr (w\<lparr>last_error := code\<rparr>)
           | None \<Rightarrow> Inr (w\<lparr>classes := insert (get_class_name T) (classes w)\<rparr>))"
  by (simp add: register_class_def RegisterClassEx_def GetLastError_def Let_def
      split: option.splits)

lemma register_class_twice:
  assumes "register_class plat T this creation_params w = Inr w1"
  shows "\<exists>w2. register_class plat T this creation_params w1 = Inr w2"
  using assms unfolding register_class_outcome
  by (auto split: if_splits option.splits)

lemma WndProc_errors:
  assumes "WndProc plat T window message wParam lParam w = Inl e"
  shows "e = null_dereference"
proof (cases "bind_on_create window message lParam w")
  case (Inl e')
  then have "e' = null_dereference"
    by (auto simp: bind_on_create_def Let_def split: if_splits)
  with Inl assms show ?thesis by (simp add: WndProc_def)
next
  case (Inr w1)
  show ?thesis
  proof (cases "user_data w1 window = 0")
    case True
    with Inr assms on_message_handled [of plat T 0 window message wParam lParam w1]
    show ?thesis
      by (auto simp: WndProc_def GetWindowLongPtr_def)
  next
    case False
    from WndProc_after_bind [OF Inr refl False, of plat T wParam] assms show ?thesis
      by auto
  qed
qed

lemma deliver_errors:
  "deliver plat T window ms w = Inl e \<Longrightarrow> e = null_dereference"
proof (induction ms arbitrary: w)
  case Nil
  then show ?case by simp
next
  case (Cons m ms)
  obtain message wParam lParam where m: "m = (message, wParam, lParam)"
    by (cases m)
  show ?case
  proof (cases "WndProc plat T window message wParam lParam w")
    case (Inl e')
    with Cons.prems m have "e' = e" by simp
    with Inl show ?thesis by (auto dest: WndProc_errors)
  next
    case (Inr p)
    with Cons.prems m have "deliver plat T window ms (snd p) = Inl e"
      by (cases p) simp
    then show ?thesis by (rule Cons.IH)
  qed
qed

lemma CreateWindow_errors:
  assumes "CreateWindow plat T name title module param w = Inl e"
  shows "e = null_dereference"
proof -
  define c where "c = creation plat"
  from assms have a: "name \<in> classes w" "new_handle c \<noteq> 0"
    unfolding CreateWindow_def c_def Let_def by (simp_all split: if_splits)
  show ?thesis
  proof (cases "deliver plat T (new_handle c) (early_messages c) w")
    case (Inl e')
    with a assms have "e' = e" unfolding CreateWindow_def c_def Let_def by simp
    with Inl show ?thesis by (auto dest: deliver_errors)
  next
    case early: (Inr w1)
    show ?thesis
    proof (cases "WndProc plat T (new_handle c) WM_NCCREATE 0 (struct_address c)
           (w1\<lparr>lpCreateParams := (lpCreateParams w1)(struct_address c := param)\<rparr>)")
      case (Inl e')
      with a early assms have "e' = e" unfolding CreateWindow_def c_def Let_def by simp
      with Inl show ?thesis by (auto dest: WndProc_errors)
    next
      case (Inr p)
      obtain r w2 where p: "p = (r, w2)" by (cases p)
      with a early Inr assms have "deliver plat T (new_handle c) (late_messages c) w2 = Inl e"
        unfolding CreateWindow_def c_def Let_def by (simp split: if_splits sum.splits)
      then show ?thesis by (rule deliver_errors)
    qed
  qed
qed

lemma create_outcome:
  "create plat T this creation_params w =
     (case CreateWindow plat T (get_class_name T) (caption creation_params)
             (get_current_module plat T) this w of
        Inl e \<Rightarrow> Inl e
      | Inr (handle, w1) \<Rightarrow>
          if handle = 0
          then Inl (win32_error (format (FormatMessageA plat) ''CreateWindow'' (last_error w1)))
          else Inr (w1\<lparr>m_window := (m_window w1)(this := handle)\<rparr>))"
  by (simp add: create_def GetLastError_def Let_def split: sum.splits prod.splits)

text \<open>
  C5. The constructor ends in a \<open>win32_error\<close> exactly in two cases. Either
  \<open>RegisterClassEx\<close> fails with a code other than \<open>ERROR_CLASS_ALREADY_EXISTS\<close>: then the
  error's text is that of \<open>format\<close> for the label \<open>RegisterClassEx\<close> and that code. Or the
  class is registered (a name already taken counts as success, so registering a second
  time succeeds as well, and on a platform that does not refuse the name both
  registrations succeed) and \<open>CreateWindow\<close> returns no handle: then the text is that of
  \<open>format\<close> for the label \<open>CreateWindow\<close> and the last error. The error is the result of the
  constructor; nothing catches it.
\<close>

theorem platform_failures:
  "(\<forall>code. get_class_name T \<notin> classes w
        \<and> registration_refused plat (get_class_name T) = Some code
        \<and> code \<noteq> ERROR_CLASS_ALREADY_EXISTS \<longrightarrow>
      AppWindow plat T this creation_params w
        = Inl (win32_error (format (FormatMessageA plat) ''RegisterClassEx'' code)))
   \<and> (get_class_name T \<in> classes w \<longrightarrow>
        (\<exists>w1. register_class plat T this creation_params w = Inr w1))
   \<and> (\<forall>w1. register_class plat T this creation_params w = Inr w1 \<longrightarrow>
        (\<exists>w2. register_class plat T this creation_params w1 = Inr w2))
   \<and> (registration_refused plat (get_class_name T) = None \<longrightarrow>
        (\<exists>w1 w2. register_class plat T this creation_params w = Inr w1
           \<and> register_class plat T this creation_params w1 = Inr w2))
   \<and> (\<forall>w1 w2. register_class plat T this creation_params (Window this w) = Inr w1
        \<and> CreateWindow plat T (get_class_name T) (caption creation_params)
             (get_current_module plat T) this w1 = Inr (0, w2) \<longrightarrow>
      AppWindow plat T this creation_params w
        = Inl (win32_error (format (FormatMessageA plat) ''CreateWindow'' (last_error w2))))
   \<and> (\<forall>s. AppWindow plat T this creation_params w = Inl (win32_error s) \<longrightarrow>
        (\<exists>code. get_class_name T \<notin> classes w
           \<and> registration_refused plat (get_class_name T) = Some code
           \<and> code \<noteq> ERROR_CLASS_ALREADY_EXISTS
           \<and> s = format (FormatMessageA plat) ''RegisterClassEx'' code)
        \<or> (\<exists>w1 w2. register_class plat T this creation_params (Window this w) = Inr w1
           \<and> CreateWindow plat T (get_class_name T) (caption creation_params)
                (get_current_module plat T) this w1 = Inr (0, w2)
           \<and> s = format (FormatMessageA plat) ''CreateWindow'' (last_error w2)))"
proof (intro conjI allI impI)
  fix code
  assume "get_class_name T \<notin> classes w
    \<and> registration_refused plat (get_class_name T) = Some code
    \<and> code \<noteq> ERROR_CLASS_ALREADY_EXISTS"
  then show "AppWindow plat T this creation_params w
    = Inl (win32_error (format (FormatMessageA plat) ''RegisterClassEx'' code))"
    by (simp add: AppWindow_def register_class_outcome Window_def)
next
  assume "get_class_name T \<in> classes w"
  then show "\<exists>w1. register_class plat T this creation_params w = Inr w1"
    by (simp add: register_class_outcome)
next
  fix w1
  assume "register_class plat T this creation_params w = Inr w1"
  then show "\<exists>w2. register_class plat T this creation_params w1 = Inr w2"
    by (rule register_class_twice)
next
  assume "registration_refused plat (get_class_name T) = None"
  then have "\<exists>w1. register_class plat T this creation_params w = Inr w1"
    by (simp add: register_class_outcome)
  then obtain w1 where first: "register_class plat T this creation_params w = Inr w1" ..
  with register_class_twice [OF first]
  show "\<exists>w1 w2. register_class plat T this creation_params w = Inr w1
           \<and> register_class plat T this creation_params w1 = Inr w2"
    by blast
next
  fix w1 w2
  assume "register_class plat T this creation_params (Window this w) = Inr w1
    \<and> CreateWindow plat T (get_class_name T) (caption creation_params)
         (get_current_module plat T) this w1 = Inr (0, w2)"
  then show "AppWindow plat T this creation_params w
    = Inl (win32_error (format (FormatMessageA plat) ''CreateWindow'' (last_error w2)))"
    by (simp add: AppWindow_def create_outcome)
next
  fix s
  assume raised: "AppWindow plat T this creation_params w = Inl (win32_error s)"
  show "(\<exists>code. get_class_name T \<notin> classes w
           \<and> registration_refused plat (get_class_name T) = Some code
           \<and> code \<noteq> ERROR_CLASS_ALREADY_EXISTS
           \<and> s = format (FormatMessageA plat) ''RegisterClassEx'' code)
        \<or> (\<exists>w1 w2. register_class plat T this creation_params (Window this w) = Inr w1
           \<and> CreateWindow plat T (get_class_name T) (caption creation_params)
                (get_current_module plat T) this w1 = Inr (0, w2)
           \<and> s = format (FormatMessageA plat) ''CreateWindow'' (last_error w2))"
  proof (cases "register_class plat T this creation_params (Window this w)")
    case (Inl e)
    with raised have "e = win32_error s" by (simp add: AppWindow_def)
    with Inl show ?thesis
      unfolding register_class_outcome
      by (auto simp: Window_def split: if_splits option.splits)
  next
    case (Inr w1)
    with raised have cr: "create plat T this creation_params w1 = Inl (win32_error s)"
      by (simp add: AppWindow_def)
    show ?thesis
    proof (cases "CreateWindow plat T (get_class_name T) (caption creation_params)
             (get_current_module plat T) this w1")
      case (Inl e)
      with cr have "e = win32_error s" by (simp add: create_outcome)
      with CreateWindow_errors [OF Inl] show ?thesis by simp
    next
      case made: (Inr p)
      obtain handle w2 where p: "p = (handle, w2)" by (cases p)
      with made cr have "handle = 0"
        and "s = format (FormatMessageA plat) ''CreateWindow'' (last_error w2)"
        by (simp_all add: create_outcome split: if_splits)
      with Inr made p show ?thesis by blast
    qed
  qed
qed


lemma example_texts:
  "format error_table ''RegisterClassEx'' 5 = ''RegisterClassEx: error 5: Access is denied.''"
  "format error_table ''CreateWindow'' 8 = ''CreateWindow: error 8: Not enough memory.''"
  by code_simp+

theorem platform_failures_witness:
  "AppWindow refusing Plain obj \<lparr>caption = ''Hello''\<rparr> blank
     = Inl (win32_error ''RegisterClassEx: error 5: Access is denied.'')
   \<and> AppWindow exhausted Plain obj \<lparr>caption = ''Hello''\<rparr> blank
     = Inl (win32_error ''CreateWindow: error 8: Not enough memory.'')
   \<and> (\<exists>w1 w2. register_class desktop Plain obj \<lparr>caption = ''Hello''\<rparr> blank = Inr w1
        \<and> register_class desktop Plain obj \<lparr>caption = ''Hello''\<rparr> w1 = Inr w2)"
proof -
  let ?cp = "\<lparr>caption = ''Hello''\<rparr>"
  have r: "get_class_name Plain \<notin> classes blank"
    "registration_refused refusing (get_class_name Plain) = Some 5"
    "(5 :: DWORD) \<noteq> ERROR_CLASS_ALREADY_EXISTS" "FormatMessageA refusing = error_table"
    by (simp_all add: refusing_def refuse_access_def desktop_def blank_def
        ERROR_CLASS_ALREADY_EXISTS_def)
  from platform_failures [of Plain blank refusing obj ?cp] r example_texts(1)
  have 1: "AppWindow refusing Plain obj ?cp blank
     = Inl (win32_error ''RegisterClassEx: error 5: Access is denied.'')"
    by simp
  define w1 where "w1 = (Window obj blank)\<lparr>classes := {get_class_name Plain}\<rparr>"
  have e: "register_class exhausted Plain obj ?cp (Window obj blank) = Inr w1"
    "CreateWindow exhausted Plain (get_class_name Plain) (caption ?cp)
       (get_current_module exhausted Plain) obj w1 = Inr (0, w1\<lparr>last_error := 8\<rparr>)"
    "FormatMessageA exhausted = error_table"
    by (simp_all add: w1_def register_class_outcome CreateWindow_def exhausted_def desktop_def
        never_refused_def blank_def Window_def)
  from platform_failures [of Plain blank exhausted obj ?cp] e example_texts(2)
  have 2: "AppWindow exhausted Plain obj ?cp blank
     = Inl (win32_error ''CreateWindow: error 8: Not enough memory.'')"
    by simp
  have "registration_refused desktop (get_class_name Plain) = None"
    by (simp add: desktop_def never_refused_def)
  with platform_failures [of Plain blank desktop obj ?cp]
  have 3: "\<exists>w1 w2. register_class desktop Plain obj ?cp blank = Inr w1
        \<and> register_class desktop Plain obj ?cp w1 = Inr w2"
    by blast
  from 1 2 3 show ?thesis by blast
qed

end
